theory Spec2Isabelle
  imports Complex_Main "HOL-Library.Sublist"
begin

section \<open>Python strings\<close>

text \<open>
  A Python \<open>str\<close> is a sequence of code points. The model covers the code points below
  256 (Latin-1): a \<^typ>\<open>char\<close> is one code point and \<^typ>\<open>string\<close> one \<open>str\<close>, so
  \<open>length\<close> counts what Python's \<open>len\<close> counts. The library functions below are
  written for this range: \<open>str.isspace\<close> holds of 9..13, 28..32, 133 and 160;
  \<open>str.lower\<close> moves A..Z and the capital letters 192..222 (215 apart) up by 32.
\<close>

definition ord :: "char \<Rightarrow> nat" where
  "ord c = of_char c"

definition isspace :: "char \<Rightarrow> bool" where
  "isspace c =
     (let n = ord c
      in (9 \<le> n \<and> n \<le> 13) \<or> (28 \<le> n \<and> n \<le> 32) \<or> n = 133 \<or> n = 160)"

definition strip :: "string \<Rightarrow> string" where
  "strip s = rev (dropWhile isspace (rev (dropWhile isspace s)))"

text \<open>\<open>s[:n]\<close>: a negative \<open>n\<close> counts from the end, and the bound is clamped.\<close>

definition slice_to :: "int \<Rightarrow> 'a list \<Rightarrow> 'a list" where
  "slice_to n xs = (if n < 0 then take (length xs - nat (- n)) xs else take (nat n) xs)"

definition lower_char :: "char \<Rightarrow> char" where
  "lower_char c =
     (let n = ord c
      in if (65 \<le> n \<and> n \<le> 90) \<or> (192 \<le> n \<and> n \<le> 222 \<and> n \<noteq> 215)
         then char_of (n + 32) else c)"

definition lower :: "string \<Rightarrow> string" where
  "lower s = map lower_char s"

text \<open>\<open>needle in haystack\<close> on strings: some suffix of the haystack starts with the needle.\<close>

fun contains :: "string \<Rightarrow> string \<Rightarrow> bool" where
  "contains needle [] = (needle = [])"
| "contains needle (c # cs) = (prefix needle (c # cs) \<or> contains needle cs)"

text \<open>\<open>s.split(sep)\<close> for a one-character separator: never empty, one more part than separators.\<close>

fun split_on :: "char \<Rightarrow> string \<Rightarrow> string list" where
  "split_on sep [] = [[]]"
| "split_on sep (c # cs) =
     (let ps = split_on sep cs
      in if c = sep then [] # ps else (c # hd ps) # tl ps)"

subsection \<open>\<open>int(str)\<close>\<close>

text \<open>
  \<open>int(s)\<close> in base 10 accepts: optional surrounding whitespace, an optional sign, then
  decimal digits with single underscores between digits, and nothing else; it raises
  \<open>ValueError\<close> otherwise, and also when there are more than 4300 digits (the
  interpreter's default limit on integer strings). The whitespace it skips is the ASCII
  set 9..13 and 32, and the non-ASCII spaces 133 and 160.
\<close>

datatype ValueError = ValueError

definition is_digit :: "char \<Rightarrow> bool" where
  "is_digit c = (48 \<le> ord c \<and> ord c \<le> 57)"

definition digit_val :: "char \<Rightarrow> nat" where
  "digit_val c = ord c - 48"

definition int_space :: "char \<Rightarrow> bool" where
  "int_space c = (let n = ord c in (9 \<le> n \<and> n \<le> 13) \<or> n = 32 \<or> n = 133 \<or> n = 160)"

fun parse_digits :: "nat \<Rightarrow> string \<Rightarrow> nat option" where
  "parse_digits acc [] = Some acc"
| "parse_digits acc [c] = (if is_digit c then Some (10 * acc + digit_val c) else None)"
| "parse_digits acc (c # d # ds) =
     (if is_digit c then parse_digits (10 * acc + digit_val c) (d # ds)
      else if c = CHR ''_'' \<and> is_digit d then parse_digits (10 * acc + digit_val d) ds
      else None)"

definition py_int :: "string \<Rightarrow> ValueError + int" where
  "py_int s =
     (let t = rev (dropWhile int_space (rev (dropWhile int_space s)));
          neg = (t \<noteq> [] \<and> hd t = CHR ''-'');
          body = (if t \<noteq> [] \<and> (hd t = CHR ''-'' \<or> hd t = CHR ''+'') then tl t else t)
      in case body of
           [] \<Rightarrow> Inl ValueError
         | d # ds \<Rightarrow>
             if \<not> is_digit d then Inl ValueError
             else if length (filter is_digit body) > 4300 then Inl ValueError
             else (case parse_digits (digit_val d) ds of
                     None \<Rightarrow> Inl ValueError
                   | Some n \<Rightarrow> Inr (if neg then - int n else int n)))"

section \<open>Field cleaning (\<open>DataCleaner\<close>)\<close>

text \<open>
  \<^verbatim>\<open>
  def clean_string(value: str, max_length: int = 255) -> str:
      if not value:
          return ''
      cleaned = ''.join(char for char in value if ord(char) >= 32 or char in '\t\n\r')
      return cleaned[:max_length].strip()
  \<close>
\<close>

definition clean_string :: "string \<Rightarrow> int \<Rightarrow> string" where
  "clean_string v max_length =
     (if v = [] then []
      else let cleaned = filter (\<lambda>c. ord c \<ge> 32 \<or> c \<in> set [CHR 0x09, CHR 0x0A, CHR 0x0D]) v
           in strip (slice_to max_length cleaned))"

text \<open>
  \<^verbatim>\<open>
  def validate_ip_address(ip: str) -> str:
      if not ip or ip == '0.0.0.0':
          return '0.0.0.0'
      parts = ip.split('.')
      if len(parts) != 4:
          return '0.0.0.0'
      try:
          for part in parts:
              if not 0 <= int(part) <= 255:
                  return '0.0.0.0'
          return ip
      except ValueError:
          return '0.0.0.0'
  \<close>
  The loop either falls through to \<open>return ip\<close>, or leaves with \<open>'0.0.0.0'\<close> at the
  first part that \<open>int\<close> refuses or that is out of range.
\<close>

fun check_parts :: "string \<Rightarrow> string list \<Rightarrow> string" where
  "check_parts ip [] = ip"
| "check_parts ip (part # parts) =
     (case py_int part of
        Inl ValueError \<Rightarrow> ''0.0.0.0''
      | Inr n \<Rightarrow> if \<not> (0 \<le> n \<and> n \<le> 255) then ''0.0.0.0'' else check_parts ip parts)"

definition validate_ip_address :: "string \<Rightarrow> string" where
  "validate_ip_address ip =
     (if ip = [] \<or> ip = ''0.0.0.0'' then ''0.0.0.0''
      else let parts = split_on CHR ''.'' ip
           in if length parts \<noteq> 4 then ''0.0.0.0'' else check_parts ip parts)"

text \<open>
  \<^verbatim>\<open>
  def detect_bot_traffic(user_agent: str) -> bool:
      if not user_agent:
          return False
      bot_indicators = ['bot', 'crawler', 'spider', 'scraper', 'curl', 'wget',
                        'python-requests', 'java/', 'go-http-client']
      user_agent_lower = user_agent.lower()
      return any(indicator in user_agent_lower for indicator in bot_indicators)
  \<close>
\<close>

definition bot_indicators :: "string list" where
  "bot_indicators =
     [''bot'', ''crawler'', ''spider'', ''scraper'', ''curl'', ''wget'',
      ''python-requests'', ''java/'', ''go-http-client'']"

definition detect_bot_traffic :: "string \<Rightarrow> bool" where
  "detect_bot_traffic user_agent =
     (if user_agent = [] then False
      else let user_agent_lower = lower user_agent
           in list_ex (\<lambda>indicator. contains indicator user_agent_lower) bot_indicators)"

section \<open>Event submissions (\<open>EventData\<close>, \<open>EventBatch\<close>)\<close>

text \<open>
  A \<open>datetime\<close> is a count of microseconds: from the epoch in UTC when it carries a time
  zone, on the wall clock when it does not. Python refuses to compare or subtract the two
  kinds (\<open>TypeError\<close>). A finite Python \<open>float\<close> is the rational it denotes; the
  rounding \<open>round(x, 2)\<close> of the platform is a parameter (see \<open>pylib\<close>).
\<close>

datatype datetime = Aware int | Naive int

definition day_us :: int where
  "day_us = 86400 * 1000000"

record 'j EventData =
  event_id :: string
  event_time :: datetime
  event_type :: string
  user_id :: "string option"
  anonymous_id :: string
  session_id :: string
  visit_id :: int
  device_fingerprint :: "string option"
  user_agent :: "string option"
  ip_address :: "string option"
  page_url :: "string option"
  page_title :: "string option"
  referrer_url :: "string option"
  utm_source :: "string option"
  utm_medium :: "string option"
  utm_campaign :: "string option"
  utm_content :: "string option"
  utm_term :: "string option"
  gclid :: "string option"
  gbraid :: "string option"
  wbraid :: "string option"
  revenue :: "rat option"
  currency :: "string option"
  order_id :: "string option"
  product_id :: "string option"
  product_category :: "string option"
  quantity :: "int option"
  custom_properties :: "'j option"
  session_start_time :: "datetime option"
  session_duration :: "int option"
  page_views_in_session :: "int option"
  is_bounce :: "bool option"

text \<open>The \<open>Field(...)\<close> constraints of the model; \<open>None\<close> passes an \<open>Optional\<close> field.\<close>

definition str_len_ok :: "nat \<Rightarrow> nat \<Rightarrow> string \<Rightarrow> bool" where
  "str_len_ok lo hi s = (lo \<le> length s \<and> length s \<le> hi)"

definition opt_len_ok :: "nat \<Rightarrow> string option \<Rightarrow> bool" where
  "opt_len_ok hi v = (case v of None \<Rightarrow> True | Some s \<Rightarrow> length s \<le> hi)"

definition opt_ge :: "'a::linorder \<Rightarrow> 'a option \<Rightarrow> bool" where
  "opt_ge lo v = (case v of None \<Rightarrow> True | Some x \<Rightarrow> lo \<le> x)"

definition field_constraints :: "'j EventData \<Rightarrow> bool" where
  "field_constraints e =
     (str_len_ok 1 255 (event_id e) \<and> str_len_ok 1 100 (event_type e) \<and>
      opt_len_ok 255 (user_id e) \<and> str_len_ok 1 255 (anonymous_id e) \<and>
      str_len_ok 1 255 (session_id e) \<and> 1 \<le> visit_id e \<and>
      opt_len_ok 255 (device_fingerprint e) \<and> opt_len_ok 1000 (user_agent e) \<and>
      opt_len_ok 2000 (page_url e) \<and> opt_len_ok 500 (page_title e) \<and>
      opt_len_ok 2000 (referrer_url e) \<and> opt_len_ok 255 (utm_source e) \<and>
      opt_len_ok 255 (utm_medium e) \<and> opt_len_ok 255 (utm_campaign e) \<and>
      opt_len_ok 255 (utm_content e) \<and> opt_len_ok 255 (utm_term e) \<and>
      opt_len_ok 255 (gclid e) \<and> opt_len_ok 255 (gbraid e) \<and> opt_len_ok 255 (wbraid e) \<and>
      opt_ge 0 (revenue e) \<and> opt_len_ok 3 (currency e) \<and> opt_len_ok 255 (order_id e) \<and>
      opt_len_ok 255 (product_id e) \<and> opt_len_ok 255 (product_category e) \<and>
      opt_ge 0 (quantity e) \<and> opt_ge 0 (session_duration e) \<and>
      opt_ge 1 (page_views_in_session e))"

text \<open>
  \<^verbatim>\<open>
  @validator('event_time')
  def validate_event_time(cls, v):
      now = datetime.now(timezone.utc)
      if v > now.replace(hour=23, minute=59, second=59):
          raise ValueError('Event time cannot be in the future')
      if (now - v).days > 7:
          logger.warning(f"Event time is more than 7 days old: {v}")
      return v
  \<close>
  \<open>now\<close> is the UTC clock reading in microseconds. \<open>replace\<close> keeps the date and the
  microsecond of \<open>now\<close>; \<open>timedelta.days\<close> is the floor of the difference in days. The
  validator returns the value together with the warnings it logged.
\<close>

datatype validation_error =
    Event_time_in_future
  | Naive_datetime
  | Constraint_violated
  | Batch_size

datatype warning = Event_time_stale datetime

definition end_of_today :: "int \<Rightarrow> int" where
  "end_of_today now = (now div day_us) * day_us + 86399 * 1000000 + now mod 1000000"

definition validate_event_time :: "int \<Rightarrow> datetime \<Rightarrow> validation_error + (warning list \<times> datetime)" where
  "validate_event_time now v =
     (case v of
        Naive _ \<Rightarrow> Inl Naive_datetime
      | Aware t \<Rightarrow>
          if t > end_of_today now then Inl Event_time_in_future
          else if (now - t) div day_us > 7 then Inr ([Event_time_stale v], v)
          else Inr ([], v))"

text \<open>
  \<^verbatim>\<open>
  @validator('page_url', 'referrer_url')
  def validate_urls(cls, v):
      if v and not (v.startswith('http://') or v.startswith('https://')):
          if v.startswith('//'):
              v = 'https:' + v
          elif not v.startswith('/'):
              v = 'https://' + v
      return v
  \<close>
\<close>

definition validate_urls :: "string option \<Rightarrow> string option" where
  "validate_urls v =
     (case v of
        None \<Rightarrow> None
      | Some u \<Rightarrow>
          if u \<noteq> [] \<and> \<not> (prefix ''http://'' u \<or> prefix ''https://'' u)
          then (if prefix ''//'' u then Some (''https:'' @ u)
                else if \<not> prefix ''/'' u then Some (''https://'' @ u)
                else Some u)
          else Some u)"

text \<open>
  Building an \<open>EventData\<close> from a typed submission: the field constraints, then the
  validators. Every failure is collected, and any failure refuses the object. The
  \<open>custom_properties\<close> validator only re-serialises a value that was parsed from JSON,
  which cannot fail, so it has no branch here.
\<close>

definition EventData_validate ::
  "int \<Rightarrow> 'j EventData \<Rightarrow> validation_error list + (warning list \<times> 'j EventData)" where
  "EventData_validate now raw =
     (let errs = (if field_constraints raw then [] else [Constraint_violated]);
          e = raw\<lparr>page_url := validate_urls (page_url raw),
                  referrer_url := validate_urls (referrer_url raw)\<rparr>
      in case validate_event_time now (event_time raw) of
           Inl err \<Rightarrow> Inl (errs @ [err])
         | Inr (ws, t) \<Rightarrow> if errs = [] then Inr (ws, e) else Inl errs)"

text \<open>
  \<open>EventBatch.events: List[EventData] = Field(..., min_items=1, max_items=1000)\<close>:
  every item is validated, and one refused item refuses the batch.
\<close>

fun validate_items ::
  "int \<Rightarrow> 'j EventData list \<Rightarrow> validation_error list + (warning list \<times> 'j EventData list)" where
  "validate_items now [] = Inr ([], [])"
| "validate_items now (raw # raws) =
     (case (EventData_validate now raw, validate_items now raws) of
        (Inr (ws, e), Inr (ws', es)) \<Rightarrow> Inr (ws @ ws', e # es)
      | (Inl errs, Inr _) \<Rightarrow> Inl errs
      | (Inr _, Inl errs') \<Rightarrow> Inl errs'
      | (Inl errs, Inl errs') \<Rightarrow> Inl (errs @ errs'))"

definition EventBatch_validate ::
  "int \<Rightarrow> 'j EventData list \<Rightarrow> validation_error list + (warning list \<times> 'j EventData list)" where
  "EventBatch_validate now raws =
     (if length raws < 1 \<or> length raws > 1000 then Inl [Batch_size]
      else validate_items now raws)"

section \<open>Canonical rows and the store\<close>

text \<open>
  The dictionary built by \<open>_clean_event\<close>, one field per key, in the order of the
  \<open>column_names\<close> of the insert.
\<close>

record row =
  row_event_id :: string
  row_event_time :: datetime
  row_event_type :: string
  row_user_id :: string
  row_anonymous_id :: string
  row_session_id :: string
  row_visit_id :: int
  row_device_fingerprint :: string
  row_user_agent :: string
  row_ip_address :: string
  row_page_url :: string
  row_page_title :: string
  row_referrer_url :: string
  row_utm_source :: string
  row_utm_medium :: string
  row_utm_campaign :: string
  row_utm_content :: string
  row_utm_term :: string
  row_gclid :: string
  row_gbraid :: string
  row_wbraid :: string
  row_revenue :: rat
  row_currency :: string
  row_order_id :: string
  row_product_id :: string
  row_product_category :: string
  row_quantity :: int
  row_custom_properties :: string
  row_session_start_time :: datetime
  row_session_duration :: int
  row_page_views_in_session :: int
  row_is_bounce :: int
  row_is_valid :: int
  row_validation_errors :: string

record profile =
  profile_user_id :: string
  profile_anonymous_ids :: "string list"
  first_seen :: int
  last_seen :: int
  created_at :: int
  updated_at :: int

text \<open>
  The ClickHouse server as the two programs see it: \<open>events_buffer\<close> keeps every bulk
  insert as one entry, \<open>user_profiles\<close> and \<open>events\<close> are the rows of the tables. A
  client call raises when the server is not reachable.
\<close>

record database =
  reachable :: bool
  events_buffer :: "row list list"
  user_profiles :: "profile list"
  events :: "row list"

datatype storage_error = Storage_error

definition client_insert_events_buffer :: "row list \<Rightarrow> database \<Rightarrow> storage_error + database" where
  "client_insert_events_buffer rows db =
     (if reachable db then Inr (db\<lparr>events_buffer := events_buffer db @ [rows]\<rparr>)
      else Inl Storage_error)"

section \<open>Event cleaning and the batch insert (\<open>ClickHouseManager\<close>)\<close>

text \<open>
  The library functions the cleaner calls: \<open>hashlib.md5(s.encode()).hexdigest()\<close>,
  \<open>json.dumps\<close> and \<open>round(x, 2)\<close> on a float. \<open>s.encode()\<close> raises
  \<open>UnicodeEncodeError\<close> on a text that UTF-8 cannot encode, one with a lone surrogate:
  \<open>encode_error\<close> gives the text of that exception, or \<open>None\<close> when the text is
  encoded, and \<open>md5_hexdigest\<close> the digest of a text that is. Surrogates lie beyond
  the code points of \<^typ>\<open>char\<close>, so which texts are refused is the parameter's.
\<close>

record 'j pylib =
  md5_hexdigest :: "string \<Rightarrow> string"
  encode_error :: "string \<Rightarrow> string option"
  json_dumps :: "'j \<Rightarrow> string"
  round2 :: "rat \<Rightarrow> rat"

text \<open>\<open>v or d\<close> on an optional string: \<open>None\<close> and the empty string are both falsy.\<close>

definition str_or :: "string option \<Rightarrow> string \<Rightarrow> string" where
  "str_or v d = (case v of None \<Rightarrow> d | Some s \<Rightarrow> if s = [] then d else s)"

definition int_or :: "int option \<Rightarrow> int \<Rightarrow> int" where
  "int_or v d = (case v of None \<Rightarrow> d | Some n \<Rightarrow> if n = 0 then d else n)"

text \<open>
  \<^verbatim>\<open>
  def generate_device_fingerprint(user_agent: str, ip: str) -> str:
      if not user_agent and not ip:
          return ''
      fingerprint_data = f"{user_agent}:{ip}"
      return hashlib.md5(fingerprint_data.encode()).hexdigest()
  \<close>
\<close>

definition generate_device_fingerprint :: "'j pylib \<Rightarrow> string \<Rightarrow> string \<Rightarrow> string" where
  "generate_device_fingerprint lib ua ip =
     (if ua = [] \<and> ip = [] then []
      else md5_hexdigest lib (ua @ '':'' @ ip))"

text \<open>The exception it raises instead of returning, if any: that of \<open>encode\<close>.\<close>

definition generate_device_fingerprint_raises ::
  "'j pylib \<Rightarrow> string \<Rightarrow> string \<Rightarrow> string option" where
  "generate_device_fingerprint_raises lib ua ip =
     (if ua = [] \<and> ip = [] then None
      else encode_error lib (ua @ '':'' @ ip))"

text \<open>
  \<open>_clean_event\<close>: the dictionary it returns, field by field as the source builds it.
  The only call in it that can raise is the fingerprint's, made when the event brings no
  fingerprint of its own; \<open>clean_event_raises\<close> below is that exception, and
  \<open>try_clean_event\<close> the call as \<open>insert_events\<close> sees it.
\<close>

definition clean_event :: "'j pylib \<Rightarrow> 'j EventData \<Rightarrow> row" where
  "clean_event lib event =
     (let fingerprint =
            (if str_or (device_fingerprint event) [] = []
             then generate_device_fingerprint lib
                    (str_or (user_agent event) []) (str_or (ip_address event) [])
             else str_or (device_fingerprint event) []);
          start = (case session_start_time event of None \<Rightarrow> event_time event | Some t \<Rightarrow> t)
      in \<lparr>row_event_id = clean_string (event_id event) 255,
          row_event_time = event_time event,
          row_event_type = clean_string (event_type event) 100,
          row_user_id = clean_string (str_or (user_id event) []) 255,
          row_anonymous_id = clean_string (anonymous_id event) 255,
          row_session_id = clean_string (session_id event) 255,
          row_visit_id = visit_id event,
          row_device_fingerprint = clean_string fingerprint 255,
          row_user_agent = clean_string (str_or (user_agent event) []) 1000,
          row_ip_address = validate_ip_address (str_or (ip_address event) ''0.0.0.0''),
          row_page_url = clean_string (str_or (page_url event) []) 2000,
          row_page_title = clean_string (str_or (page_title event) []) 500,
          row_referrer_url = clean_string (str_or (referrer_url event) []) 2000,
          row_utm_source = clean_string (str_or (utm_source event) []) 255,
          row_utm_medium = clean_string (str_or (utm_medium event) []) 255,
          row_utm_campaign = clean_string (str_or (utm_campaign event) []) 255,
          row_utm_content = clean_string (str_or (utm_content event) []) 255,
          row_utm_term = clean_string (str_or (utm_term event) []) 255,
          row_gclid = clean_string (str_or (gclid event) []) 255,
          row_gbraid = clean_string (str_or (gbraid event) []) 255,
          row_wbraid = clean_string (str_or (wbraid event) []) 255,
          row_revenue =
            (case revenue event of None \<Rightarrow> 0 | Some x \<Rightarrow> if x = 0 then 0 else round2 lib x),
          row_currency = clean_string (str_or (currency event) ''USD'') 3,
          row_order_id = clean_string (str_or (order_id event) []) 255,
          row_product_id = clean_string (str_or (product_id event) []) 255,
          row_product_category = clean_string (str_or (product_category event) []) 255,
          row_quantity = int_or (quantity event) 0,
          row_custom_properties =
            (case custom_properties event of None \<Rightarrow> ''{}'' | Some j \<Rightarrow> json_dumps lib j),
          row_session_start_time = start,
          row_session_duration = int_or (session_duration event) 0,
          row_page_views_in_session = int_or (page_views_in_session event) 1,
          row_is_bounce = (if is_bounce event = Some True then 1 else 0),
          row_is_valid = 1,
          row_validation_errors = []\<rparr>)"

definition clean_event_raises :: "'j pylib \<Rightarrow> 'j EventData \<Rightarrow> string option" where
  "clean_event_raises lib event =
     (if str_or (device_fingerprint event) [] = []
      then generate_device_fingerprint_raises lib
             (str_or (user_agent event) []) (str_or (ip_address event) [])
      else None)"

definition try_clean_event :: "'j pylib \<Rightarrow> 'j EventData \<Rightarrow> string + row" where
  "try_clean_event lib event =
     (case clean_event_raises lib event of
        Some e \<Rightarrow> Inl e
      | None \<Rightarrow> Inr (clean_event lib event))"

text \<open>
  The body of the \<open>try\<close> in \<open>insert_events\<close> after the cleaning:
  \<^verbatim>\<open>
  if DataCleaner.detect_bot_traffic(cleaned_event.get('user_agent', '')):
      cleaned_event['is_valid'] = 0
      cleaned_event['validation_errors'] = 'bot_traffic'
  \<close>
\<close>

definition flag_bot :: "row \<Rightarrow> row" where
  "flag_bot r =
     (if detect_bot_traffic (row_user_agent r)
      then r\<lparr>row_is_valid := 0, row_validation_errors := ''bot_traffic''\<rparr>
      else r)"

text \<open>
  The loop of \<open>insert_events\<close>. \<open>except Exception\<close> catches whatever the cleaning raises,
  so the loop is written over any cleaning function that returns the row or the text of
  the exception; a failure adds \<open>{'event_id': ..., 'error': str(e)}\<close> (and one error line
  to the log) and the loop goes on.
\<close>

fun events_loop ::
  "('j EventData \<Rightarrow> string + row) \<Rightarrow> 'j EventData list \<Rightarrow> row list \<Rightarrow> (string \<times> string) list
     \<Rightarrow> row list \<times> (string \<times> string) list" where
  "events_loop clean [] cleaned_events validation_errors = (cleaned_events, validation_errors)"
| "events_loop clean (event # rest) cleaned_events validation_errors =
     (case clean event of
        Inr cleaned_event \<Rightarrow>
          events_loop clean rest (cleaned_events @ [flag_bot cleaned_event]) validation_errors
      | Inl e \<Rightarrow>
          events_loop clean rest cleaned_events (validation_errors @ [(event_id event, e)]))"

text \<open>
  \<open>insert_events\<close>: nothing for an empty list; otherwise the loop, then one bulk insert
  of the cleaned rows when there are any, whose exception is raised again. The result is
  the \<open>validation_errors\<close> list and either the exception or the store.
\<close>

definition insert_events_with ::
  "('j EventData \<Rightarrow> string + row) \<Rightarrow> 'j EventData list \<Rightarrow> database
     \<Rightarrow> (string \<times> string) list \<times> (storage_error + database)" where
  "insert_events_with clean evs db =
     (if evs = [] then ([], Inr db)
      else let (cleaned_events, validation_errors) = events_loop clean evs [] []
           in if cleaned_events \<noteq> []
              then (validation_errors, client_insert_events_buffer cleaned_events db)
              else (validation_errors, Inr db))"

text \<open>With the cleaner of this class.\<close>

definition insert_events ::
  "'j pylib \<Rightarrow> 'j EventData list \<Rightarrow> database \<Rightarrow> (string \<times> string) list \<times> (storage_error + database)" where
  "insert_events lib = insert_events_with (try_clean_event lib)"

text \<open>
  \<open>POST /api/events\<close>: the framework builds the \<open>EventBatch\<close> and answers 422 when that
  fails; otherwise the handler queues \<open>insert_events\<close> as a background task and answers
  with the count. An exception of the task reaches nobody and leaves the store as it was.
\<close>

datatype response = Accepted nat | Unprocessable "validation_error list"

definition collect_events ::
  "'j pylib \<Rightarrow> int \<Rightarrow> 'j EventData list \<Rightarrow> database \<Rightarrow> response \<times> database" where
  "collect_events lib now raws db =
     (case EventBatch_validate now raws of
        Inl errs \<Rightarrow> (Unprocessable errs, db)
      | Inr (ws, evs) \<Rightarrow>
          (Accepted (length evs),
           (case snd (insert_events lib evs db) of Inl _ \<Rightarrow> db | Inr db' \<Rightarrow> db')))"

section \<open>User identification (\<open>ClickHouseManager.identify_user\<close>)\<close>

record 'j UserIdentification =
  ui_user_id :: string
  ui_anonymous_id :: string
  ui_traits :: "'j option"

text \<open>
  The constraints of its fields, \<open>Field(..., min_length=1, max_length=255)\<close> on both
  identifiers: what the framework checks before the handler runs.
\<close>

definition UserIdentification_field_constraints :: "'j UserIdentification \<Rightarrow> bool" where
  "UserIdentification_field_constraints identification =
     (str_len_ok 1 255 (ui_user_id identification) \<and>
      str_len_ok 1 255 (ui_anonymous_id identification))"

text \<open>
  \<^verbatim>\<open>
  def identify_user(self, identification: UserIdentification):
      try:
          self.client.command(f"""
              INSERT INTO analytics.user_profiles
              (user_id, anonymous_ids, first_seen, last_seen, created_at, updated_at)
              VALUES (
                  '{identification.user_id}',
                  ['{identification.anonymous_id}'],
                  now64(),
                  now64(),
                  now64(),
                  now64()
              )
          """)
          self.client.command(f"""
              ALTER TABLE analytics.events
              UPDATE user_id = '{identification.user_id}'
              WHERE anonymous_id = '{identification.anonymous_id}' AND user_id = ''
          """)
      except Exception as e:
          logger.error(f"Failed to identify user: {e}")
          raise
  \<close>
  The two statements are texts: the f-strings splice the identifiers, as they are,
  between the single quotes of the template. The texts below are the f-strings character
  by character (the lines of the source are indented by 16 and 20 blanks, the first
  line of each statement ends in a blank, and the closing quotes are indented by 12).
\<close>

definition quote :: char where "quote = CHR 0x27"
definition backslash :: char where "backslash = CHR 0x5C"
definition nl :: string where "nl = [CHR 0x0A]"
definition sp :: "nat \<Rightarrow> string" where "sp n = replicate n (CHR 0x20)"

definition insert_intro :: string where
  "insert_intro =
     nl @ sp 16 @ ''INSERT INTO analytics.user_profiles '' @
     nl @ sp 16 @ ''(user_id, anonymous_ids, first_seen, last_seen, created_at, updated_at)'' @
     nl @ sp 16 @ ''VALUES ('' @
     nl @ sp 20"

definition insert_between :: string where
  "insert_between = '','' @ nl @ sp 20 @ ''[''"

definition insert_outro :: string where
  "insert_outro =
     ''],'' @
     nl @ sp 20 @ ''now64(),'' @
     nl @ sp 20 @ ''now64(),'' @
     nl @ sp 20 @ ''now64(),'' @
     nl @ sp 20 @ ''now64()'' @
     nl @ sp 16 @ '')'' @
     nl @ sp 12"

definition profile_insert_statement :: "string \<Rightarrow> string \<Rightarrow> string" where
  "profile_insert_statement uid aid =
     insert_intro @ [quote] @ uid @ [quote] @
     insert_between @ [quote] @ aid @ [quote] @ insert_outro"

definition update_intro :: string where
  "update_intro =
     nl @ sp 16 @ ''ALTER TABLE analytics.events '' @
     nl @ sp 16 @ ''UPDATE user_id = ''"

definition update_between :: string where
  "update_between = nl @ sp 16 @ ''WHERE anonymous_id = ''"

definition update_outro :: string where
  "update_outro = '' AND user_id = '' @ [quote, quote] @ nl @ sp 12"

definition events_update_statement :: "string \<Rightarrow> string \<Rightarrow> string" where
  "events_update_statement uid aid =
     update_intro @ [quote] @ uid @ [quote] @
     update_between @ [quote] @ aid @ [quote] @ update_outro"

text \<open>
  What the server makes of a statement is decided by the text alone. The model reads
  the texts in which each of the two places of the template holds string literals
  joined by \<open>||\<close>, the concatenation of strings, which binds tighter than \<open>=\<close>,
  \<open>,\<close> and \<open>AND\<close>: such a text is still one insert of one row, or one update under the
  \<open>WHERE\<close> clause of the template, with the values of the two expressions. An
  identifier without a single quote and without a backslash gives one literal, itself; an
  identifier with single quotes may close the literal and go on, as \<open>a1'||'\<close> does, which
  the template completes to \<open>'a1'||''\<close>, the string \<open>a1\<close>. Inside a literal two single
  quotes stand for one; a backslash starts an escape sequence, and a text with a
  backslash in a literal is not read here. Every other text is some other statement or
  none, and what the server does with it is the parameter \<open>elsewhere\<close> of the model.

  \<open>scan\<close> reads a string expression from behind the opening quote of its first
  literal: the value read so far, and the text to read. After a literal, blanks and
  \<open>||\<close> lead to the next literal; anything else ends the expression where the literal
  ended.
\<close>

definition sql_space :: "char \<Rightarrow> bool" where
  "sql_space c = (c = CHR 0x20 \<or> c = CHR 0x09 \<or> c = CHR 0x0A \<or> c = CHR 0x0D \<or>
                  c = CHR 0x0C \<or> c = CHR 0x0B)"

datatype mode = In_literal | After_literal string | After_bars

fun scan :: "mode \<Rightarrow> string \<Rightarrow> string \<Rightarrow> (string \<times> string) option" where
  "scan In_literal acc [] = None"
| "scan In_literal acc (c # cs) =
     (if c = backslash then None
      else if c = quote then
        (case cs of
           [] \<Rightarrow> Some (acc, [])
         | d # ds \<Rightarrow>
             if d = quote then scan In_literal (acc @ [quote]) ds
             else scan (After_literal cs) acc cs)
      else scan In_literal (acc @ [c]) cs)"
| "scan (After_literal rest) acc [] = Some (acc, rest)"
| "scan (After_literal rest) acc (c # cs) =
     (if sql_space c then scan (After_literal rest) acc cs
      else if c = CHR ''|'' then
        (case cs of
           [] \<Rightarrow> Some (acc, rest)
         | d # ds \<Rightarrow> if d = CHR ''|'' then scan After_bars acc ds else Some (acc, rest))
      else Some (acc, rest))"
| "scan After_bars acc [] = None"
| "scan After_bars acc (c # cs) =
     (if sql_space c then scan After_bars acc cs
      else if c = quote then scan In_literal acc cs
      else None)"

definition read_string_expr :: "string \<Rightarrow> (string \<times> string) option" where
  "read_string_expr stmt =
     (case stmt of
        [] \<Rightarrow> None
      | c # cs \<Rightarrow> if c = quote then scan In_literal [] cs else None)"

fun strip_prefix :: "string \<Rightarrow> string \<Rightarrow> string option" where
  "strip_prefix [] cs = Some cs"
| "strip_prefix (p # ps) [] = None"
| "strip_prefix (p # ps) (c # cs) = (if p = c then strip_prefix ps cs else None)"

text \<open>An identifier that is spliced as one literal, its own.\<close>

definition sql_literal_safe :: "string \<Rightarrow> bool" where
  "sql_literal_safe s = list_all (\<lambda>c. c \<noteq> quote \<and> c \<noteq> backslash) s"

text \<open>The two values of a text of the form of the template, if it has that form.\<close>

definition read_template :: "string \<Rightarrow> string \<Rightarrow> string \<Rightarrow> string \<Rightarrow> (string \<times> string) option" where
  "read_template intro between outro stmt =
     (case strip_prefix intro stmt of
        None \<Rightarrow> None
      | Some t1 \<Rightarrow>
          (case read_string_expr t1 of
             None \<Rightarrow> None
           | Some (v1, t2) \<Rightarrow>
               (case strip_prefix between t2 of
                  None \<Rightarrow> None
                | Some t3 \<Rightarrow>
                    (case read_string_expr t3 of
                       None \<Rightarrow> None
                     | Some (v2, t4) \<Rightarrow> if t4 = outro then Some (v1, v2) else None))))"

definition read_profile_insert :: "string \<Rightarrow> (string \<times> string) option" where
  "read_profile_insert = read_template insert_intro insert_between insert_outro"

definition read_events_update :: "string \<Rightarrow> (string \<times> string) option" where
  "read_events_update = read_template update_intro update_between update_outro"

text \<open>
  The update of the template sets \<open>user_id\<close> on the rows that satisfy the \<open>WHERE\<close>
  clause (a mutation; the model gives the table once it has been applied).
\<close>

definition backfill :: "string \<Rightarrow> string \<Rightarrow> row \<Rightarrow> row" where
  "backfill uid aid r =
     (if row_anonymous_id r = aid \<and> row_user_id r = [] then r\<lparr>row_user_id := uid\<rparr> else r)"

text \<open>
  \<open>client.command(text)\<close>: raises when the server is not reachable; otherwise the server
  runs the statement. \<open>now64()\<close> is the server's clock at the insert.
\<close>

definition client_command ::
  "(string \<Rightarrow> database \<Rightarrow> storage_error + database) \<Rightarrow> int \<Rightarrow> string \<Rightarrow> database
     \<Rightarrow> storage_error + database" where
  "client_command elsewhere now64 stmt db =
     (if \<not> reachable db then Inl Storage_error
      else case read_profile_insert stmt of
        Some (uid, aid) \<Rightarrow>
          Inr (db\<lparr>user_profiles := user_profiles db @
                    [\<lparr>profile_user_id = uid, profile_anonymous_ids = [aid],
                      first_seen = now64, last_seen = now64,
                      created_at = now64, updated_at = now64\<rparr>]\<rparr>)
      | None \<Rightarrow>
          (case read_events_update stmt of
             Some (uid, aid) \<Rightarrow> Inr (db\<lparr>events := map (backfill uid aid) (events db)\<rparr>)
           | None \<Rightarrow> elsewhere stmt db))"

text \<open>
  \<open>identify_user\<close>: the two commands in turn; an exception of either is logged and raised
  again, the store being what the commands before it made of it. The \<open>traits\<close> are not
  used.
\<close>

datatype identify_result =
    Identified database
  | Identify_raised storage_error database

definition identify_user ::
  "(string \<Rightarrow> database \<Rightarrow> storage_error + database) \<Rightarrow> int \<Rightarrow> 'j UserIdentification \<Rightarrow> database
     \<Rightarrow> identify_result" where
  "identify_user elsewhere now64 identification db =
     (case client_command elsewhere now64
             (profile_insert_statement
                (ui_user_id identification) (ui_anonymous_id identification)) db of
        Inl e \<Rightarrow> Identify_raised e db
      | Inr db1 \<Rightarrow>
          (case client_command elsewhere now64
                  (events_update_statement
                     (ui_user_id identification) (ui_anonymous_id identification)) db1 of
             Inl e \<Rightarrow> Identify_raised e db1
           | Inr db2 \<Rightarrow> Identified db2))"

section \<open>The attribution query (\<open>GoogleAdsSync.sync_attribution_data\<close>)\<close>

text \<open>
  The query is SQL text that the ClickHouse server runs; its model is the relational
  reading of that text over the two tables, with exact rational arithmetic for the sums
  and quotients. Dates are day numbers. Two things the query depends on are fixed
  neither by the query nor by the client that sends it, and are parameters:
  \<^item> \<open>join_use_nulls\<close>: whether the outer join fills the columns of an absent side with
    \<open>NULL\<close>, or with the default value of the column type (0, the empty string, day 0),
    which is what the server does unless it is configured otherwise;
  \<^item> \<open>event_date\<close>: a column of \<open>analytics.events\<close> that \<open>insert_events\<close> does not
    write and the table's declaration derives.
\<close>

record settings =
  join_use_nulls :: bool
  event_date :: "row \<Rightarrow> int"

text \<open>The columns of \<open>analytics.google_ads_performance\<close> that the query reads.\<close>

record perf_row =
  perf_date :: int
  perf_campaign_name :: string
  perf_clicks :: int
  perf_cost :: rat

definition toDate :: "datetime \<Rightarrow> int" where
  "toDate t = (case t of Aware u \<Rightarrow> u div day_us | Naive u \<Rightarrow> u div day_us)"

text \<open>
  \<^verbatim>\<open>
  google_ads_clicks AS (
      SELECT date, campaign_name, sum(clicks) as ad_clicks, sum(cost) as ad_spend
      FROM analytics.google_ads_performance
      WHERE date >= today() - 30
      GROUP BY date, campaign_name)
  \<close>
\<close>

record gac_row =
  gac_date :: int
  gac_campaign_name :: string
  gac_ad_clicks :: int
  gac_ad_spend :: rat

definition google_ads_clicks_cte :: "int \<Rightarrow> perf_row list \<Rightarrow> gac_row list" where
  "google_ads_clicks_cte today perf =
     (let rows = filter (\<lambda>p. perf_date p \<ge> today - 30) perf;
          keys = remdups (map (\<lambda>p. (perf_date p, perf_campaign_name p)) rows)
      in map (\<lambda>k.
            let grp = filter (\<lambda>p. (perf_date p, perf_campaign_name p) = k) rows
            in \<lparr>gac_date = fst k, gac_campaign_name = snd k,
                gac_ad_clicks = sum_list (map perf_clicks grp),
                gac_ad_spend = sum_list (map perf_cost grp)\<rparr>) keys)"

text \<open>
  \<^verbatim>\<open>
  website_conversions AS (
      SELECT toDate(event_time) as date, utm_campaign as campaign_name,
             count(DISTINCT user_id) as unique_users, sum(revenue) as website_revenue,
             countIf(event_type = 'purchase') as conversions
      FROM analytics.events
      WHERE event_date >= today() - 30 AND utm_source = 'google' AND utm_medium = 'cpc'
        AND utm_campaign != '' AND is_valid = 1
      GROUP BY date, campaign_name)
  \<close>
\<close>

record wc_row =
  wc_date :: int
  wc_campaign_name :: string
  wc_unique_users :: int
  wc_website_revenue :: rat
  wc_conversions :: int

definition website_conversions_cte :: "settings \<Rightarrow> int \<Rightarrow> row list \<Rightarrow> wc_row list" where
  "website_conversions_cte cfg today evs =
     (let rows = filter (\<lambda>r. event_date cfg r \<ge> today - 30 \<and> row_utm_source r = ''google'' \<and>
                              row_utm_medium r = ''cpc'' \<and> row_utm_campaign r \<noteq> [] \<and>
                              row_is_valid r = 1) evs;
          keys = remdups (map (\<lambda>r. (toDate (row_event_time r), row_utm_campaign r)) rows)
      in map (\<lambda>k.
            let grp = filter (\<lambda>r. (toDate (row_event_time r), row_utm_campaign r) = k) rows
            in \<lparr>wc_date = fst k, wc_campaign_name = snd k,
                wc_unique_users = int (length (remdups (map row_user_id grp))),
                wc_website_revenue = sum_list (map row_revenue grp),
                wc_conversions =
                  int (length (filter (\<lambda>r. row_event_type r = ''purchase'') grp))\<rparr>) keys)"

text \<open>
  \<^verbatim>\<open>
  FROM google_ads_clicks gac
  FULL OUTER JOIN website_conversions wc
      ON gac.date = wc.date AND gac.campaign_name = wc.campaign_name
  \<close>
  A joined row holds the columns of both sides; \<open>None\<close> is \<open>NULL\<close>.
\<close>

record joined =
  j_gac_date :: "int option"
  j_gac_campaign_name :: "string option"
  j_gac_ad_clicks :: "int option"
  j_gac_ad_spend :: "rat option"
  j_wc_date :: "int option"
  j_wc_campaign_name :: "string option"
  j_wc_unique_users :: "int option"
  j_wc_website_revenue :: "rat option"
  j_wc_conversions :: "int option"

definition column :: "bool \<Rightarrow> 'r option \<Rightarrow> ('r \<Rightarrow> 'a) \<Rightarrow> 'a \<Rightarrow> 'a option" where
  "column nulls side col dflt =
     (case side of Some x \<Rightarrow> Some (col x) | None \<Rightarrow> if nulls then None else Some dflt)"

definition join_row :: "bool \<Rightarrow> gac_row option \<Rightarrow> wc_row option \<Rightarrow> joined" where
  "join_row nulls g w =
     \<lparr>j_gac_date = column nulls g gac_date 0,
      j_gac_campaign_name = column nulls g gac_campaign_name [],
      j_gac_ad_clicks = column nulls g gac_ad_clicks 0,
      j_gac_ad_spend = column nulls g gac_ad_spend 0,
      j_wc_date = column nulls w wc_date 0,
      j_wc_campaign_name = column nulls w wc_campaign_name [],
      j_wc_unique_users = column nulls w wc_unique_users 0,
      j_wc_website_revenue = column nulls w wc_website_revenue 0,
      j_wc_conversions = column nulls w wc_conversions 0\<rparr>"

definition on_clause :: "gac_row \<Rightarrow> wc_row \<Rightarrow> bool" where
  "on_clause g w = (gac_date g = wc_date w \<and> gac_campaign_name g = wc_campaign_name w)"

definition full_outer_join :: "bool \<Rightarrow> gac_row list \<Rightarrow> wc_row list \<Rightarrow> joined list" where
  "full_outer_join nulls gac wc =
     concat (map (\<lambda>g.
        let ms = filter (on_clause g) wc
        in if ms = [] then [join_row nulls (Some g) None]
           else map (\<lambda>w. join_row nulls (Some g) (Some w)) ms) gac)
     @ map (\<lambda>w. join_row nulls None (Some w))
         (filter (\<lambda>w. \<not> list_ex (\<lambda>g. on_clause g w) gac) wc)"

text \<open>
  Expressions. A comparison with \<open>NULL\<close> is \<open>NULL\<close>; \<open>OR\<close> is three-valued; \<open>if\<close> takes
  its third argument unless the condition is true, and evaluates only the branch it
  takes; a quotient with a \<open>NULL\<close> operand is \<open>NULL\<close>, and a quotient by zero is not a
  number (an exception for decimals, an infinity or \<open>NaN\<close> for floats):
  \<open>Division_by_zero\<close>.
\<close>

datatype cell = Null | Num rat | Division_by_zero

definition sql_gt0 :: "'a::{zero,ord} option \<Rightarrow> bool option" where
  "sql_gt0 x = map_option (\<lambda>v. v > 0) x"

definition sql_or :: "bool option \<Rightarrow> bool option \<Rightarrow> bool option" where
  "sql_or a b =
     (if a = Some True \<or> b = Some True then Some True
      else if a = Some False \<and> b = Some False then Some False
      else None)"

definition sql_if :: "bool option \<Rightarrow> cell \<Rightarrow> cell \<Rightarrow> cell" where
  "sql_if c a b = (if c = Some True then a else b)"

definition sql_div :: "rat option \<Rightarrow> rat option \<Rightarrow> cell" where
  "sql_div a b =
     (case (a, b) of
        (Some x, Some y) \<Rightarrow> if y = 0 then Division_by_zero else Num (x / y)
      | _ \<Rightarrow> Null)"

definition sql_times :: "cell \<Rightarrow> rat \<Rightarrow> cell" where
  "sql_times a k = (case a of Num x \<Rightarrow> Num (x * k) | Null \<Rightarrow> Null | Division_by_zero \<Rightarrow> Division_by_zero)"

definition coalesce :: "'a option \<Rightarrow> 'a option \<Rightarrow> 'a option" where
  "coalesce a b = (case a of Some x \<Rightarrow> Some x | None \<Rightarrow> b)"

definition coalesce0 :: "'a::zero option \<Rightarrow> 'a" where
  "coalesce0 a = (case a of Some x \<Rightarrow> x | None \<Rightarrow> 0)"

text \<open>
  \<^verbatim>\<open>
  SELECT coalesce(gac.date, wc.date) as date,
         coalesce(gac.campaign_name, wc.campaign_name) as campaign_name,
         coalesce(gac.ad_clicks, 0) as ad_clicks,
         coalesce(gac.ad_spend, 0) as ad_spend,
         coalesce(wc.unique_users, 0) as website_users,
         coalesce(wc.website_revenue, 0) as website_revenue,
         coalesce(wc.conversions, 0) as website_conversions,
         if(gac.ad_spend > 0, wc.website_revenue / gac.ad_spend, 0) as roas,
         if(wc.conversions > 0, gac.ad_spend / wc.conversions, 0) as cost_per_conversion,
         if(gac.ad_clicks > 0, wc.unique_users / gac.ad_clicks * 100, 0) as click_to_visit_rate
  ...
  WHERE gac.ad_spend > 0 OR wc.website_revenue > 0
  ORDER BY date DESC, roas DESC
  \<close>
\<close>

record attribution_row =
  date :: "int option"
  campaign_name :: "string option"
  ad_clicks :: int
  ad_spend :: rat
  website_users :: int
  website_revenue :: rat
  website_conversions :: int
  roas :: cell
  cost_per_conversion :: cell
  click_to_visit_rate :: cell

definition select_row :: "joined \<Rightarrow> attribution_row" where
  "select_row j =
     \<lparr>date = coalesce (j_gac_date j) (j_wc_date j),
      campaign_name = coalesce (j_gac_campaign_name j) (j_wc_campaign_name j),
      ad_clicks = coalesce0 (j_gac_ad_clicks j),
      ad_spend = coalesce0 (j_gac_ad_spend j),
      website_users = coalesce0 (j_wc_unique_users j),
      website_revenue = coalesce0 (j_wc_website_revenue j),
      website_conversions = coalesce0 (j_wc_conversions j),
      roas = sql_if (sql_gt0 (j_gac_ad_spend j))
               (sql_div (j_wc_website_revenue j) (j_gac_ad_spend j)) (Num 0),
      cost_per_conversion = sql_if (sql_gt0 (j_wc_conversions j))
               (sql_div (j_gac_ad_spend j) (map_option of_int (j_wc_conversions j))) (Num 0),
      click_to_visit_rate = sql_if (sql_gt0 (j_gac_ad_clicks j))
               (sql_times (sql_div (map_option of_int (j_wc_unique_users j))
                                   (map_option of_int (j_gac_ad_clicks j))) 100) (Num 0)\<rparr>"

definition where_clause :: "joined \<Rightarrow> bool" where
  "where_clause j =
     (sql_or (sql_gt0 (j_gac_ad_spend j)) (sql_gt0 (j_wc_website_revenue j)) = Some True)"

text \<open>Descending order puts \<open>NULL\<close> last; the sort is an insertion sort.\<close>

definition desc_before :: "'a::linorder option \<Rightarrow> 'a option \<Rightarrow> bool" where
  "desc_before a b =
     (case (a, b) of
        (Some x, Some y) \<Rightarrow> x > y
      | (Some x, None) \<Rightarrow> True
      | _ \<Rightarrow> False)"

definition number_of :: "cell \<Rightarrow> rat option" where
  "number_of c = (case c of Num x \<Rightarrow> Some x | _ \<Rightarrow> None)"

definition sorts_before :: "attribution_row \<Rightarrow> attribution_row \<Rightarrow> bool" where
  "sorts_before a b =
     (desc_before (date a) (date b) \<or>
      (date a = date b \<and> desc_before (number_of (roas a)) (number_of (roas b))))"

fun insert_sorted :: "attribution_row \<Rightarrow> attribution_row list \<Rightarrow> attribution_row list" where
  "insert_sorted r [] = [r]"
| "insert_sorted r (x # xs) = (if sorts_before x r then x # insert_sorted r xs else r # x # xs)"

definition order_by :: "attribution_row list \<Rightarrow> attribution_row list" where
  "order_by rows = foldr insert_sorted rows []"

definition attribution_query ::
  "settings \<Rightarrow> int \<Rightarrow> perf_row list \<Rightarrow> row list \<Rightarrow> attribution_row list" where
  "attribution_query cfg today perf evs =
     order_by (map select_row (filter where_clause
       (full_outer_join (join_use_nulls cfg)
          (google_ads_clicks_cte today perf) (website_conversions_cte cfg today evs))))"

section \<open>The specification's words\<close>

text \<open>
  The control characters the specification says are stripped: a code point below 32 that
  is not tab, newline or carriage return.
\<close>

definition strippable_control :: "char \<Rightarrow> bool" where
  "strippable_control c =
     (ord c < 32 \<and> c \<noteq> CHR 0x09 \<and> c \<noteq> CHR 0x0A \<and> c \<noteq> CHR 0x0D)"

text \<open>
  A dotted quad as the specification describes it: exactly four parts between dots, each
  an octet, that is one to three decimal digits denoting a number of at most 255.
\<close>

definition decimal_value :: "string \<Rightarrow> nat" where
  "decimal_value s = foldl (\<lambda>a c. 10 * a + digit_val c) 0 s"

definition is_octet :: "string \<Rightarrow> bool" where
  "is_octet s = (s \<noteq> [] \<and> length s \<le> 3 \<and> list_all is_digit s \<and> decimal_value s \<le> 255)"

definition dotted_quad :: "string \<Rightarrow> bool" where
  "dotted_quad ip =
     (let parts = split_on CHR ''.'' ip in length parts = 4 \<and> list_all is_octet parts)"

text \<open>
  What the specification calls the accepted rows and the reported \<open>(event_id, error)\<close>
  pairs of a batch, for a cleaning function that may fail.
\<close>

definition accepted_rows :: "('j EventData \<Rightarrow> string + row) \<Rightarrow> 'j EventData list \<Rightarrow> row list" where
  "accepted_rows clean evs =
     map flag_bot (List.map_filter (\<lambda>e. case clean e of Inr r \<Rightarrow> Some r | Inl _ \<Rightarrow> None) evs)"

definition rejections ::
  "('j EventData \<Rightarrow> string + row) \<Rightarrow> 'j EventData list \<Rightarrow> (string \<times> string) list" where
  "rejections clean evs =
     List.map_filter (\<lambda>e. case clean e of Inl m \<Rightarrow> Some (event_id e, m) | Inr _ \<Rightarrow> None) evs"

text \<open>
  The stored user-profile associations: the pairs of a user and an anonymous identifier
  that some profile row records.
\<close>

definition associations :: "database \<Rightarrow> (string \<times> string) list" where
  "associations db =
     concat (map (\<lambda>p. map (Pair (profile_user_id p)) (profile_anonymous_ids p))
               (user_profiles db))"

section \<open>Example inputs\<close>

text \<open>
  A submission with the defaults of the model, a clock reading (2023-11-14 22:13:20 UTC)
  and an empty reachable store. The library stand-ins are never reached by a property
  that is stated with them: the examples carry their own fingerprint, no custom
  properties and a revenue of 0.
\<close>

definition example_lib :: "unit pylib" where
  "example_lib =
     \<lparr>md5_hexdigest = (\<lambda>s. s), encode_error = (\<lambda>s. None), json_dumps = (\<lambda>j. ''{}''),
      round2 = (\<lambda>x. x)\<rparr>"

text \<open>
  A library whose \<open>encode\<close> refuses the texts that hold the character \<open>0xFF\<close>, which
  stands here for a lone surrogate (a code point that \<^typ>\<open>char\<close> does not have), and
  a server that refuses every statement the model does not read.
\<close>

definition refusing_lib :: "unit pylib" where
  "refusing_lib =
     example_lib\<lparr>encode_error :=
       (\<lambda>s. if list_ex (\<lambda>c. c = CHR 0xFF) s then Some ''surrogates not allowed'' else None)\<rparr>"

definition refusing_server :: "string \<Rightarrow> database \<Rightarrow> storage_error + database" where
  "refusing_server stmt db = Inl Storage_error"

definition example_now :: int where
  "example_now = 1700000000 * 1000000"

definition example_event :: "string \<Rightarrow> datetime \<Rightarrow> string \<Rightarrow> unit EventData" where
  "example_event eid t ua =
     \<lparr>event_id = eid, event_time = t, event_type = ''page_view'', user_id = Some [],
      anonymous_id = ''a1'', session_id = ''s1'', visit_id = 1,
      device_fingerprint = Some ''fp'', user_agent = Some ua, ip_address = Some ''10.0.0.1'',
      page_url = Some ''https://example.org/'', page_title = Some [], referrer_url = Some [],
      utm_source = Some [], utm_medium = Some [], utm_campaign = Some [],
      utm_content = Some [], utm_term = Some [], gclid = Some [], gbraid = Some [],
      wbraid = Some [], revenue = Some 0, currency = Some ''USD'', order_id = Some [],
      product_id = Some [], product_category = Some [], quantity = Some 0,
      custom_properties = None, session_start_time = None, session_duration = Some 0,
      page_views_in_session = Some 1, is_bounce = Some False\<rparr>"

definition example_db :: database where
  "example_db = \<lparr>reachable = True, events_buffer = [], user_profiles = [], events = []\<rparr>"

text \<open>
  A stored purchase row of campaign \<open>brand\<close> on the day of the clock reading, with a given
  user and revenue; the day number of that day; the two join settings.
\<close>

definition example_purchase :: "string \<Rightarrow> rat \<Rightarrow> row" where
  "example_purchase uid x =
     (clean_event example_lib (example_event ''e1'' (Aware example_now) ''Mozilla/5.0''))
       \<lparr>row_user_id := uid, row_event_type := ''purchase'', row_utm_source := ''google'',
        row_utm_medium := ''cpc'', row_utm_campaign := ''brand'', row_revenue := x\<rparr>"

definition example_today :: int where
  "example_today = 19675"

definition example_settings :: "bool \<Rightarrow> settings" where
  "example_settings nulls =
     \<lparr>join_use_nulls = nulls, event_date = (\<lambda>r. toDate (row_event_time r))\<rparr>"

section \<open>Properties of the field cleaner\<close>

lemma keep_iff_not_strippable:
  "(ord c \<ge> 32 \<or> c \<in> set [CHR 0x09, CHR 0x0A, CHR 0x0D]) = (\<not> strippable_control c)"
  by (auto simp: strippable_control_def ord_def)

lemma slice_to_nat: "slice_to (int n) xs = take n xs"
  by (simp add: slice_to_def)

lemma strip_Nil: "strip [] = []"
  by (simp add: strip_def)

lemma clean_string_pipeline:
  "clean_string v (int n) = strip (take n (filter (\<lambda>c. \<not> strippable_control c) v))"
  by (cases "v = []")
    (simp_all add: clean_string_def keep_iff_not_strippable slice_to_nat strip_Nil del: set_simps)

text \<open>
  C7. For every string and every length bound \<open>n\<close>, \<open>clean_string\<close> is the composition
  the specification describes: drop exactly the code points below 32 other than tab,
  newline and carriage return, keep the first \<open>n\<close> characters of what is left, trim the
  whitespace at both ends. It is a total function of its two arguments, and
  \<open>clean_string("a\x00b\x07c", 10) = "abc"\<close>.
\<close>

theorem clean_string_spec:
  "clean_string v (int n) = strip (take n (filter (\<lambda>c. \<not> strippable_control c) v))
   \<and> clean_string [CHR ''a'', CHR 0x00, CHR ''b'', CHR 0x07, CHR ''c''] 10 = ''abc''"
proof
  show "clean_string v (int n) = strip (take n (filter (\<lambda>c. \<not> strippable_control c) v))"
    by (rule clean_string_pipeline)
  show "clean_string [CHR ''a'', CHR 0x00, CHR ''b'', CHR 0x07, CHR ''c''] 10 = ''abc''"
    by code_simp
qed

text \<open>
  A negative \<open>max_length\<close> is not a length: the slice then drops that many characters
  from the end instead. No caller passes one.
\<close>

lemma clean_string_negative_bound: "clean_string ''  abcdef  '' (- 3) = ''abcde''"
  by code_simp

subsection \<open>\<open>validate_ip_address\<close>\<close>

lemma parse_digits_all:
  "list_all is_digit ds \<Longrightarrow>
   parse_digits acc ds = Some (foldl (\<lambda>a c. 10 * a + digit_val c) acc ds)"
  by (induction acc ds rule: parse_digits.induct) auto

lemma digit_not_space: "is_digit c \<Longrightarrow> \<not> int_space c"
  by (auto simp: is_digit_def int_space_def Let_def)

lemma digit_not_sign: "is_digit c \<Longrightarrow> c \<noteq> CHR ''-'' \<and> c \<noteq> CHR ''+''"
  by (auto simp: is_digit_def ord_def)

lemma dropWhile_digits: "list_all is_digit s \<Longrightarrow> dropWhile int_space s = s"
  by (cases s) (auto simp: digit_not_space)

lemma py_int_octet:
  assumes "is_octet s"
  shows "py_int s = Inr (int (decimal_value s))"
proof -
  from assms obtain d ds where s: "s = d # ds" and dig: "list_all is_digit (d # ds)"
    and len: "length s \<le> 3"
    by (cases s) (auto simp: is_octet_def)
  have r: "list_all is_digit (rev s)" using dig s by (simp add: list_all_iff)
  have a: "dropWhile int_space s = s" using dig s dropWhile_digits by blast
  have b: "dropWhile int_space (rev s) = rev s" using r dropWhile_digits by blast
  have t: "rev (dropWhile int_space (rev (dropWhile int_space s))) = s"
    by (simp only: a b rev_rev_ident)
  have f: "length (filter is_digit s) \<le> 3"
    using len by (meson le_trans length_filter_le)
  have d: "is_digit d" using dig by simp
  show ?thesis
    unfolding py_int_def t using d f dig digit_not_sign[OF d]
    by (simp add: s parse_digits_all decimal_value_def)
qed

lemma check_parts_octets: "list_all is_octet parts \<Longrightarrow> check_parts ip parts = ip"
  by (induction parts) (auto simp: py_int_octet is_octet_def)

text \<open>The half of C6 that holds: a dotted quad is returned unchanged.\<close>

lemma validate_ip_address_dotted_quad: "dotted_quad ip \<Longrightarrow> validate_ip_address ip = ip"
  by (auto simp: dotted_quad_def validate_ip_address_def Let_def check_parts_octets)

lemma validate_ip_address_examples:
  "validate_ip_address '''' = ''0.0.0.0''"
  "validate_ip_address ''::1'' = ''0.0.0.0''"
  "validate_ip_address ''1.2.3.256'' = ''0.0.0.0''"
  "validate_ip_address ''1.2.3'' = ''0.0.0.0''"
  "validate_ip_address ''192.168.1.20'' = ''192.168.1.20''"
  by code_simp+

text \<open>
  C6. The specification wants \<open>"0.0.0.0"\<close> for every string that is not a dotted quad.
  The parts are tested with \<open>int\<close>, which reads more than octets: \<open>int("1_0")\<close> is 10, so
  \<open>"1_0.0.0.1"\<close>, which is not a dotted quad, comes back unchanged.
\<close>

theorem validate_ip_address_underscore:
  "\<not> dotted_quad ''1_0.0.0.1'' \<and> validate_ip_address ''1_0.0.0.1'' = ''1_0.0.0.1''"
  by code_simp

text \<open>So do a sign, surrounding whitespace and a negative zero.\<close>

lemma validate_ip_address_lenient:
  "validate_ip_address ''+1.2.3.4'' = ''+1.2.3.4''"
  "validate_ip_address '' 1.2.3.4'' = '' 1.2.3.4''"
  "validate_ip_address ''-0.0.0.0'' = ''-0.0.0.0''"
  by code_simp+

section \<open>Bot detection survives the cleaning\<close>

lemma contains_sublist: "contains n h = sublist n h"
  by (induction h) (simp_all add: sublist_Cons_right)

lemma contains_iff: "contains n h \<longleftrightarrow> (\<exists>ps ss. h = ps @ n @ ss)"
  by (simp add: contains_sublist sublist_def)

lemma lower_preimage:
  "lower_char c = x \<Longrightarrow> 33 \<le> ord x \<Longrightarrow> ord x \<le> 126 \<Longrightarrow> 32 \<le> ord c \<and> \<not> isspace c"
  by (auto simp: lower_char_def isspace_def Let_def split: if_splits)

lemma indicator_chars:
  "ind \<in> set bot_indicators \<Longrightarrow> x \<in> set ind \<Longrightarrow> 33 \<le> ord x \<and> ord x \<le> 126"
proof -
  have "list_all (list_all (\<lambda>x. 33 \<le> ord x \<and> ord x \<le> 126)) bot_indicators"
    by code_simp
  then show "ind \<in> set bot_indicators \<Longrightarrow> x \<in> set ind \<Longrightarrow> 33 \<le> ord x \<and> ord x \<le> 126"
    by (simp add: list_all_iff)
qed

lemma indicator_nonempty: "ind \<in> set bot_indicators \<Longrightarrow> ind \<noteq> []"
proof -
  have "list_all (\<lambda>i. i \<noteq> []) bot_indicators" by code_simp
  then show "ind \<in> set bot_indicators \<Longrightarrow> ind \<noteq> []" by (simp add: list_all_iff)
qed

lemma dropWhile_mid:
  "w \<noteq> [] \<Longrightarrow> \<forall>c\<in>set w. \<not> P c \<Longrightarrow> \<exists>p'. dropWhile P (p @ w @ s) = p' @ w @ s"
proof (induction p)
  case Nil
  then have "dropWhile P (w @ s) = w @ s" by (cases w) auto
  then show ?case by (metis append_Nil)
next
  case (Cons a p)
  then obtain p' where "dropWhile P (p @ w @ s) = p' @ w @ s" by blast
  then show ?case by (cases "P a") (auto intro: exI[of _ "a # p"])
qed

lemma strip_mid:
  assumes "w \<noteq> []" "\<forall>c\<in>set w. \<not> isspace c"
  shows "\<exists>p' s'. strip (p @ w @ s) = p' @ w @ s'"
proof -
  obtain p' where 1: "dropWhile isspace (p @ w @ s) = p' @ w @ s"
    using dropWhile_mid[OF assms] by blast
  have "rev w \<noteq> []" "\<forall>c\<in>set (rev w). \<not> isspace c" using assms by auto
  from dropWhile_mid[OF this, of "rev s" "rev p'"]
  obtain q where 2: "dropWhile isspace (rev s @ rev w @ rev p') = q @ rev w @ rev p'" by blast
  have "strip (p @ w @ s) = p' @ w @ rev q"
    by (simp add: strip_def 1 2)
  then show ?thesis by blast
qed

lemma map_split:
  "map f xs = ys @ zs \<Longrightarrow> \<exists>us vs. xs = us @ vs \<and> map f us = ys \<and> map f vs = zs"
  by (metis append_eq_map_conv)

lemma clean_string_keeps_match:
  assumes ind: "ind \<in> set bot_indicators" and c: "contains ind (lower ua)"
    and len: "length ua \<le> 1000"
  shows "detect_bot_traffic (clean_string ua 1000)"
proof -
  from c obtain ps ss where "lower ua = ps @ ind @ ss" by (auto simp: contains_iff)
  then have "map lower_char ua = ps @ (ind @ ss)" by (simp add: lower_def)
  then obtain p vs where 1: "ua = p @ vs" and 2: "map lower_char vs = ind @ ss"
    using map_split by blast
  from 2 obtain w s where 3: "vs = w @ s" and w: "map lower_char w = ind"
    using map_split by blast
  have ua: "ua = p @ w @ s" using 1 3 by simp
  have wne: "w \<noteq> []" using indicator_nonempty[OF ind] w by auto
  have wch: "\<forall>c\<in>set w. 32 \<le> ord c \<and> \<not> isspace c"
  proof
    fix c assume "c \<in> set w"
    then have "lower_char c \<in> set ind" using w by auto
    from indicator_chars[OF ind this] show "32 \<le> ord c \<and> \<not> isspace c"
      using lower_preimage by blast
  qed
  let ?keep = "\<lambda>c. ord c \<ge> 32 \<or> c \<in> set [CHR 0x09, CHR 0x0A, CHR 0x0D]"
  have fw: "filter ?keep w = w" using wch by (intro filter_True) auto
  have f: "filter ?keep ua = filter ?keep p @ w @ filter ?keep s"
    unfolding ua filter_append fw ..
  have "length (filter ?keep ua) \<le> 1000" using len length_filter_le le_trans by blast
  then have sl: "slice_to 1000 (filter ?keep ua) = filter ?keep ua"
    by (simp add: slice_to_def)
  from strip_mid[OF wne, of "filter ?keep p" "filter ?keep s"] wch
  obtain p' s' where st: "strip (filter ?keep p @ w @ filter ?keep s) = p' @ w @ s'" by blast
  have uane: "ua \<noteq> []" using ua wne by simp
  have cs: "clean_string ua 1000 = p' @ w @ s'"
  proof -
    have "clean_string ua 1000 = strip (slice_to 1000 (filter ?keep ua))"
      using uane by (simp only: clean_string_def Let_def if_False)
    also have "\<dots> = strip (filter ?keep ua)" by (simp only: sl)
    also have "\<dots> = p' @ w @ s'" by (simp only: f st)
    finally show ?thesis .
  qed
  have "lower (p' @ w @ s') = lower p' @ ind @ lower s'" using w by (simp add: lower_def)
  then have "contains ind (lower (clean_string ua 1000))"
    unfolding cs contains_iff by blast
  moreover have "clean_string ua 1000 \<noteq> []" using cs wne by simp
  ultimately show ?thesis
    using ind by (auto simp: detect_bot_traffic_def Let_def list_ex_iff)
qed

lemma row_user_agent_clean_event:
  "row_user_agent (clean_event lib e) = clean_string (str_or (user_agent e) []) 1000"
  by (simp add: clean_event_def Let_def)

lemma row_flags_clean_event:
  "row_is_valid (clean_event lib e) = 1" "row_validation_errors (clean_event lib e) = []"
  by (simp_all add: clean_event_def Let_def)

lemma flag_bot_fields:
  "row_is_valid (flag_bot r) = (if detect_bot_traffic (row_user_agent r) then 0 else row_is_valid r)"
  "row_validation_errors (flag_bot r) =
     (if detect_bot_traffic (row_user_agent r) then ''bot_traffic'' else row_validation_errors r)"
  "row_user_agent (flag_bot r) = row_user_agent r"
  by (simp_all add: flag_bot_def)


subsection \<open>The loop and the bulk insert\<close>

lemma events_loop_partition:
  "events_loop clean evs acc errs =
     (acc @ accepted_rows clean evs, errs @ rejections clean evs)"
proof (induction evs arbitrary: acc errs)
  case Nil
  show ?case by (simp add: accepted_rows_def rejections_def List.map_filter_simps)
next
  case (Cons e evs)
  show ?case
    by (cases "clean e")
      (simp_all add: Cons.IH accepted_rows_def rejections_def List.map_filter_simps)
qed

lemma insert_events_with_partition:
  "evs \<noteq> [] \<Longrightarrow>
   insert_events_with clean evs db =
     (rejections clean evs,
      if accepted_rows clean evs = [] then Inr db
      else client_insert_events_buffer (accepted_rows clean evs) db)"
  by (simp add: insert_events_with_def events_loop_partition)

lemma accepted_rows_total:
  "accepted_rows (\<lambda>e. Inr (f e)) evs = map (\<lambda>e. flag_bot (f e)) evs"
  by (induction evs) (simp_all add: accepted_rows_def List.map_filter_simps)

lemma rejections_total: "rejections (\<lambda>e. Inr (f e)) evs = []"
  by (induction evs) (simp_all add: rejections_def List.map_filter_simps)

lemma clean_event_raises_event_time:
  "clean_event_raises lib (e\<lparr>event_time := t\<rparr>) = clean_event_raises lib e"
  by (simp add: clean_event_raises_def)

lemma clean_event_raises_urls:
  "clean_event_raises lib (e\<lparr>page_url := p, referrer_url := q\<rparr>) = clean_event_raises lib e"
  by (simp add: clean_event_raises_def)

lemma clean_event_raises_own_fingerprint:
  "device_fingerprint e = Some fp \<Longrightarrow> fp \<noteq> [] \<Longrightarrow> clean_event_raises lib e = None"
  by (simp add: clean_event_raises_def str_or_def)

lemma insert_events_partition:
  "evs \<noteq> [] \<Longrightarrow>
   insert_events lib evs db =
     (rejections (try_clean_event lib) evs,
      if accepted_rows (try_clean_event lib) evs = [] then Inr db
      else client_insert_events_buffer (accepted_rows (try_clean_event lib) evs) db)"
  by (simp add: insert_events_def insert_events_with_partition)

lemma accepted_rows_no_raise:
  "list_all (\<lambda>e. clean_event_raises lib e = None) evs \<Longrightarrow>
   accepted_rows (try_clean_event lib) evs = map (\<lambda>e. flag_bot (clean_event lib e)) evs"
  by (induction evs)
    (simp_all add: accepted_rows_def List.map_filter_simps try_clean_event_def)

lemma rejections_no_raise:
  "list_all (\<lambda>e. clean_event_raises lib e = None) evs \<Longrightarrow>
   rejections (try_clean_event lib) evs = []"
  by (induction evs) (simp_all add: rejections_def List.map_filter_simps try_clean_event_def)

lemma insert_events_stores:
  "evs \<noteq> [] \<Longrightarrow> reachable db \<Longrightarrow> list_all (\<lambda>e. clean_event_raises lib e = None) evs \<Longrightarrow>
   insert_events lib evs db =
     ([], Inr (db\<lparr>events_buffer :=
                   events_buffer db @ [map (\<lambda>e. flag_bot (clean_event lib e)) evs]\<rparr>))"
  by (simp add: insert_events_partition accepted_rows_no_raise rejections_no_raise
      client_insert_events_buffer_def)

lemma insert_events_raised:
  "clean_event_raises lib e = Some m \<Longrightarrow> insert_events lib [e] db = ([(event_id e, m)], Inr db)"
  by (simp add: insert_events_partition accepted_rows_def rejections_def List.map_filter_simps
      try_clean_event_def)

subsection \<open>Validation at the boundary\<close>

lemma end_of_today_bounds: "now \<le> end_of_today now + 86399999999 \<and> end_of_today now < now + day_us"
proof -
  have 1: "now = (now div day_us) * day_us + now mod day_us" by simp
  have 2: "0 \<le> now mod day_us" "now mod day_us < day_us" by (simp_all add: day_us_def)
  have 3: "0 \<le> now mod 1000000" "now mod 1000000 < 1000000" by simp_all
  show ?thesis unfolding end_of_today_def using 1 2 3 by (simp add: day_us_def) linarith
qed

lemma future_event_time:
  "end_of_today now < t \<Longrightarrow> validate_event_time now (Aware t) = Inl Event_time_in_future"
  by (simp add: validate_event_time_def)

lemma thirty_days_ahead: "end_of_today now < now + 30 * day_us"
  using end_of_today_bounds[of now] by (simp add: day_us_def)

lemma stale_event_time:
  assumes "7 < (now - t) div day_us"
  shows "validate_event_time now (Aware t) = Inr ([Event_time_stale (Aware t)], Aware t)"
proof -
  have "8 * day_us \<le> now - t"
  proof (rule ccontr)
    assume "\<not> 8 * day_us \<le> now - t"
    then have "now - t < 8 * day_us" by simp
    then have "(now - t) div day_us < 8"
      by (simp add: day_us_def div_less_iff_less_mult)
    with assms show False by simp
  qed
  then have "t \<le> end_of_today now"
    using end_of_today_bounds[of now] by (simp add: day_us_def)
  with assms show ?thesis by (simp add: validate_event_time_def)
qed

lemma EventData_validate_time_error:
  "validate_event_time now (event_time raw) = Inl err \<Longrightarrow>
   \<exists>errs. EventData_validate now raw = Inl errs"
  by (simp add: EventData_validate_def Let_def)

lemma validate_items_error:
  "raw \<in> set raws \<Longrightarrow> EventData_validate now raw = Inl errs \<Longrightarrow>
   \<exists>errs'. validate_items now raws = Inl errs'"
proof (induction raws)
  case Nil
  then show ?case by simp
next
  case (Cons a raws)
  show ?case
  proof (cases "raw = a")
    case True
    with Cons.prems show ?thesis by (cases "validate_items now raws") auto
  next
    case False
    with Cons obtain errs' where "validate_items now raws = Inl errs'" by auto
    then show ?thesis by (cases "EventData_validate now a") auto
  qed
qed

lemma collect_events_refuses:
  assumes "raw \<in> set raws" "event_time raw = Aware t" "end_of_today now < t"
  shows "\<exists>errs. collect_events lib now raws db = (Unprocessable errs, db)"
proof -
  have "validate_event_time now (event_time raw) = Inl Event_time_in_future"
    using assms by (simp add: future_event_time)
  then obtain errs where "EventData_validate now raw = Inl errs"
    using EventData_validate_time_error by blast
  then obtain errs' where "validate_items now raws = Inl errs'"
    using validate_items_error assms(1) by blast
  then have "\<exists>e. EventBatch_validate now raws = Inl e"
    by (simp add: EventBatch_validate_def)
  then show ?thesis by (auto simp: collect_events_def)
qed

lemma collect_events_single:
  assumes "field_constraints e" "event_time e = Aware t" "t \<le> end_of_today now" "reachable db"
  shows "collect_events lib now [e] db =
     (Accepted 1,
      if clean_event_raises lib e = None
      then db\<lparr>events_buffer := events_buffer db @
           [[flag_bot (clean_event lib
               (e\<lparr>page_url := validate_urls (page_url e),
                  referrer_url := validate_urls (referrer_url e)\<rparr>))]]\<rparr>
      else db)"
proof -
  let ?e = "e\<lparr>page_url := validate_urls (page_url e),
               referrer_url := validate_urls (referrer_url e)\<rparr>"
  have v: "\<exists>ws. validate_event_time now (event_time e) = Inr (ws, Aware t)"
    using assms by (simp add: validate_event_time_def)
  then obtain ws where "EventData_validate now e = Inr (ws, ?e)"
    using assms(1) by (auto simp: EventData_validate_def Let_def)
  then have b: "EventBatch_validate now [e] = Inr (ws, [?e])"
    by (simp add: EventBatch_validate_def)
  have r: "clean_event_raises lib ?e = clean_event_raises lib e"
    by (rule clean_event_raises_urls)
  show ?thesis
  proof (cases "clean_event_raises lib e")
    case None
    then show ?thesis
      using assms(4) b r by (simp add: collect_events_def insert_events_stores)
  next
    case (Some m)
    then have "insert_events lib [?e] db = ([(event_id ?e, m)], Inr db)"
      using r insert_events_raised[of lib ?e m db] by simp
    then show ?thesis using b Some by (simp add: collect_events_def)
  qed
qed

section \<open>The batch processor\<close>

text \<open>
  C1, as the code has it. The check of \<open>event_time\<close> is a validator of \<open>EventData\<close>: it
  runs when the batch is built, before \<open>insert_events\<close>, and one refused event refuses the
  whole batch, so a batch with an event after the end of the current UTC day (30 days
  ahead is such a time) is answered with a validation error and leaves the store
  untouched. For a batch that was built, \<open>insert_events\<close> isolates failures per event:
  whatever the cleaning raises on an event becomes one \<open>(event_id, error)\<close> pair, the
  other events are still cleaned, and the cleaned rows go to the store in a single bulk
  insert, in batch order. Whether the cleaning of an event raises does not depend on its
  \<open>event_time\<close>; when it raises on no event of the batch, every event is written and
  none is reported.
\<close>

theorem batch_processing:
  "(raw \<in> set raws \<and> event_time raw = Aware t \<and> end_of_today now < t \<longrightarrow>
      (\<exists>errs. collect_events lib now raws db = (Unprocessable errs, db)))
   \<and> end_of_today now < now + 30 * day_us
   \<and> (evs \<noteq> [] \<longrightarrow>
        insert_events_with clean evs db =
          (rejections clean evs,
           if accepted_rows clean evs = [] then Inr db
           else client_insert_events_buffer (accepted_rows clean evs) db))
   \<and> (evs \<noteq> [] \<longrightarrow>
        insert_events lib evs db =
          (rejections (try_clean_event lib) evs,
           if accepted_rows (try_clean_event lib) evs = [] then Inr db
           else client_insert_events_buffer (accepted_rows (try_clean_event lib) evs) db))
   \<and> clean_event_raises lib (e\<lparr>event_time := t'\<rparr>) = clean_event_raises lib e
   \<and> (evs \<noteq> [] \<and> reachable db \<and> list_all (\<lambda>e. clean_event_raises lib e = None) evs \<longrightarrow>
        insert_events lib evs db =
          ([], Inr (db\<lparr>events_buffer :=
                        events_buffer db @ [map (\<lambda>e. flag_bot (clean_event lib e)) evs]\<rparr>)))"
  using collect_events_refuses[of raw raws t now lib db] thirty_days_ahead[of now]
    insert_events_with_partition[of evs clean db] insert_events_partition[of evs lib db]
    clean_event_raises_event_time[where lib = lib and e = e and t = t'] insert_events_stores[of evs db lib]
  by blast

text \<open>
  The batch of three with the second event 30 days ahead is refused. A batch of three in
  which the cleaning of the second event raises, because the event brings no fingerprint
  and the text to fingerprint cannot be encoded, stores the first and the third in one
  bulk insert and reports the second.
\<close>

theorem batch_processing_witness:
  "(\<exists>errs. collect_events refusing_lib example_now
       [example_event ''e1'' (Aware example_now) ''Mozilla/5.0'',
        example_event ''e2'' (Aware (example_now + 30 * day_us)) ''Mozilla/5.0'',
        example_event ''e3'' (Aware example_now) ''Mozilla/5.0''] example_db
      = (Unprocessable errs, example_db))
   \<and> insert_events_with
        (\<lambda>e. if event_id e = ''e2'' then Inl ''boom'' else Inr (clean_event example_lib e))
        [example_event ''e1'' (Aware example_now) ''Mozilla/5.0'',
         (example_event ''e2'' (Aware example_now) [CHR 0xFF])\<lparr>device_fingerprint := None\<rparr>,
         example_event ''e3'' (Aware example_now) ''curl/8.0''] example_db
      = ([(''e2'', ''boom'')],
         Inr (example_db\<lparr>events_buffer :=
           [[flag_bot (clean_event example_lib (example_event ''e1'' (Aware example_now) ''Mozilla/5.0'')),
             flag_bot (clean_event example_lib (example_event ''e3'' (Aware example_now) ''curl/8.0''))]]\<rparr>))
   \<and> insert_events refusing_lib
        [example_event ''e1'' (Aware example_now) ''Mozilla/5.0'',
         (example_event ''e2'' (Aware example_now) [CHR 0xFF])\<lparr>device_fingerprint := None\<rparr>,
         example_event ''e3'' (Aware example_now) ''curl/8.0''] example_db
      = ([(''e2'', ''surrogates not allowed'')],
         Inr (example_db\<lparr>events_buffer :=
           [[flag_bot (clean_event refusing_lib (example_event ''e1'' (Aware example_now) ''Mozilla/5.0'')),
             flag_bot (clean_event refusing_lib (example_event ''e3'' (Aware example_now) ''curl/8.0''))]]\<rparr>))"
proof -
  let ?f = "example_event ''e2'' (Aware (example_now + 30 * day_us)) ''Mozilla/5.0''"
  let ?raws = "[example_event ''e1'' (Aware example_now) ''Mozilla/5.0'', ?f,
                example_event ''e3'' (Aware example_now) ''Mozilla/5.0'']"
  let ?clean = "\<lambda>e::unit EventData.
     if event_id e = ''e2'' then Inl ''boom'' else Inr (clean_event example_lib e)"
  let ?e1 = "example_event ''e1'' (Aware example_now) ''Mozilla/5.0''"
  let ?e2 = "(example_event ''e2'' (Aware example_now) [CHR 0xFF])\<lparr>device_fingerprint := None\<rparr>"
  let ?e3 = "example_event ''e3'' (Aware example_now) ''curl/8.0''"
  let ?evs = "[?e1, ?e2, ?e3]"
  have a: "?f \<in> set ?raws" by simp
  have b: "event_time ?f = Aware (example_now + 30 * day_us)" by (simp add: example_event_def)
  have c: "end_of_today example_now < example_now + 30 * day_us" by (rule thirty_days_ahead)
  have d: "?evs \<noteq> []" by simp
  have r: "rejections ?clean ?evs = [(''e2'', ''boom'')]"
    by (simp add: rejections_def List.map_filter_simps example_event_def)
  have acc: "accepted_rows ?clean ?evs = [flag_bot (clean_event example_lib ?e1),
      flag_bot (clean_event example_lib ?e3)]"
    by (simp add: accepted_rows_def List.map_filter_simps example_event_def)
  have t1: "try_clean_event refusing_lib ?e1 = Inr (clean_event refusing_lib ?e1)"
    by (simp add: try_clean_event_def clean_event_raises_def example_event_def str_or_def)
  have t2: "try_clean_event refusing_lib ?e2 = Inl ''surrogates not allowed''"
    by (simp add: try_clean_event_def clean_event_raises_def example_event_def str_or_def
        generate_device_fingerprint_raises_def refusing_lib_def)
  have t3: "try_clean_event refusing_lib ?e3 = Inr (clean_event refusing_lib ?e3)"
    by (simp add: try_clean_event_def clean_event_raises_def example_event_def str_or_def)
  have i2: "event_id ?e2 = ''e2''" by (simp add: example_event_def)
  have r': "rejections (try_clean_event refusing_lib) ?evs = [(''e2'', ''surrogates not allowed'')]"
    by (simp add: rejections_def List.map_filter_simps t1 t2 t3 i2)
  have acc': "accepted_rows (try_clean_event refusing_lib) ?evs =
     [flag_bot (clean_event refusing_lib ?e1), flag_bot (clean_event refusing_lib ?e3)]"
    by (simp add: accepted_rows_def List.map_filter_simps t1 t2 t3)
  from batch_processing[where raw = ?f and raws = ?raws and t = "example_now + 30 * day_us"
      and now = example_now and lib = refusing_lib and db = example_db and evs = ?evs
      and clean = ?clean] a b c d
  show ?thesis
    by (simp only: r acc r' acc') (simp add: client_insert_events_buffer_def example_db_def)
qed

text \<open>
  C1 as stated fails. The batch of three with the second event 30 days ahead is refused
  at the boundary: nothing is stored and no per-event rejection exists. Handed to
  \<open>insert_events\<close> directly, the same three objects are all written and none is
  rejected, because the cleaning never looks at \<open>event_time\<close>.
\<close>

theorem future_event_refuses_batch:
  "collect_events example_lib example_now
     [example_event ''e1'' (Aware example_now) ''Mozilla/5.0'',
      example_event ''e2'' (Aware (example_now + 30 * day_us)) ''Mozilla/5.0'',
      example_event ''e3'' (Aware example_now) ''Mozilla/5.0''] example_db
     = (Unprocessable [Event_time_in_future], example_db)
   \<and> events_buffer example_db = []
   \<and> fst (insert_events example_lib
        [example_event ''e1'' (Aware example_now) ''Mozilla/5.0'',
         example_event ''e2'' (Aware (example_now + 30 * day_us)) ''Mozilla/5.0'',
         example_event ''e3'' (Aware example_now) ''Mozilla/5.0''] example_db) = []
   \<and> (case snd (insert_events example_lib
          [example_event ''e1'' (Aware example_now) ''Mozilla/5.0'',
           example_event ''e2'' (Aware (example_now + 30 * day_us)) ''Mozilla/5.0'',
           example_event ''e3'' (Aware example_now) ''Mozilla/5.0''] example_db) of
         Inl err \<Rightarrow> False
       | Inr db \<Rightarrow> map (map row_event_id) (events_buffer db) = [[''e1'', ''e2'', ''e3'']])"
  by code_simp

section \<open>The bot flag\<close>

text \<open>
  Every \<open>EventData\<close> that was built has a user agent of at most 1000 characters, the
  one that was submitted.
\<close>

lemma field_constraints_user_agent:
  "field_constraints e \<Longrightarrow> opt_len_ok 1000 (user_agent e)"
  by (simp add: field_constraints_def)

lemma validated_user_agent:
  "EventData_validate now raw = Inr (ws, e) \<Longrightarrow>
   opt_len_ok 1000 (user_agent e) \<and> user_agent e = user_agent raw"
  using field_constraints_user_agent[of raw]
  by (auto simp: EventData_validate_def Let_def split: sum.splits if_splits)

text \<open>
  C9, as the code has it. The detector runs on the cleaned user agent, the one that is
  stored. If the submitted user agent of a validated event (at most 1000 characters, by
  its field constraint) contains a denylisted substring, case-insensitively, the stored
  row has \<open>is_valid = 0\<close> and
  \<open>validation_errors = "bot_traffic"\<close>: the cleaning cannot break the match. The flag
  overwrites whatever the row held before. If the cleaned user agent contains no
  denylisted substring, as for \<open>"Mozilla/5.0 normal browser"\<close>, the flag is not set.
\<close>

theorem bot_flag:
  "(opt_len_ok 1000 (user_agent e) \<and> user_agent e = Some ua \<and>
    ind \<in> set bot_indicators \<and> contains ind (lower ua) \<longrightarrow>
        row_is_valid (flag_bot (clean_event lib e)) = 0 \<and>
        row_validation_errors (flag_bot (clean_event lib e)) = ''bot_traffic'')
   \<and> (detect_bot_traffic (row_user_agent r) \<longrightarrow>
        row_is_valid (flag_bot r) = 0 \<and> row_validation_errors (flag_bot r) = ''bot_traffic'')
   \<and> (\<not> detect_bot_traffic (clean_string (str_or (user_agent e) []) 1000) \<longrightarrow>
        row_is_valid (flag_bot (clean_event lib e)) = 1 \<and>
        row_validation_errors (flag_bot (clean_event lib e)) = [])
   \<and> \<not> detect_bot_traffic ''Mozilla/5.0 normal browser''
   \<and> (user_agent e = Some ''Mozilla/5.0 normal browser'' \<longrightarrow>
        row_is_valid (flag_bot (clean_event lib e)) = 1 \<and>
        row_validation_errors (flag_bot (clean_event lib e)) = [])"
proof (intro conjI impI)
  assume a: "opt_len_ok 1000 (user_agent e) \<and> user_agent e = Some ua \<and>
    ind \<in> set bot_indicators \<and> contains ind (lower ua)"
  then have len: "length ua \<le> 1000" by (auto simp: opt_len_ok_def)
  have ne: "ua \<noteq> []" using a indicator_nonempty[of ind] by (auto simp: lower_def)
  have "detect_bot_traffic (clean_string ua 1000)"
    using a len clean_string_keeps_match by blast
  then have d: "detect_bot_traffic (row_user_agent (clean_event lib e))"
    using a ne by (simp add: row_user_agent_clean_event str_or_def)
  show "row_is_valid (flag_bot (clean_event lib e)) = 0" using d by (simp add: flag_bot_fields)
  show "row_validation_errors (flag_bot (clean_event lib e)) = ''bot_traffic''"
    using d by (simp add: flag_bot_fields)
next
  assume "detect_bot_traffic (row_user_agent r)"
  then show "row_is_valid (flag_bot r) = 0" "row_validation_errors (flag_bot r) = ''bot_traffic''"
    by (simp_all add: flag_bot_fields)
next
  assume "\<not> detect_bot_traffic (clean_string (str_or (user_agent e) []) 1000)"
  then show "row_is_valid (flag_bot (clean_event lib e)) = 1"
    "row_validation_errors (flag_bot (clean_event lib e)) = []"
    by (simp_all add: flag_bot_fields row_user_agent_clean_event row_flags_clean_event)
next
  show m: "\<not> detect_bot_traffic ''Mozilla/5.0 normal browser''" by code_simp
  have c: "clean_string ''Mozilla/5.0 normal browser'' 1000 = ''Mozilla/5.0 normal browser''"
    by code_simp
  assume u: "user_agent e = Some ''Mozilla/5.0 normal browser''"
  have "row_user_agent (clean_event lib e) = ''Mozilla/5.0 normal browser''"
    unfolding row_user_agent_clean_event u using c by (simp add: str_or_def)
  then show "row_is_valid (flag_bot (clean_event lib e)) = 1"
    "row_validation_errors (flag_bot (clean_event lib e)) = []"
    using m by (simp_all add: flag_bot_fields row_flags_clean_event)
qed

theorem bot_flag_witness:
  "row_is_valid (flag_bot (clean_event example_lib
       (example_event ''e1'' (Aware example_now) ''Mozilla/5.0 (compatible; GoogleBOT/2.1)''))) = 0
   \<and> row_validation_errors (flag_bot (clean_event example_lib
       (example_event ''e1'' (Aware example_now) ''Mozilla/5.0 (compatible; GoogleBOT/2.1)'')))
      = ''bot_traffic''
   \<and> row_is_valid (flag_bot (clean_event example_lib
       (example_event ''e2'' (Aware example_now) ''Mozilla/5.0 normal browser''))) = 1
   \<and> row_validation_errors (flag_bot (clean_event example_lib
       (example_event ''e2'' (Aware example_now) ''Mozilla/5.0 normal browser''))) = []"
proof -
  let ?ua = "''Mozilla/5.0 (compatible; GoogleBOT/2.1)''"
  let ?e1 = "example_event ''e1'' (Aware example_now) ?ua"
  let ?e2 = "example_event ''e2'' (Aware example_now) ''Mozilla/5.0 normal browser''"
  have b: "user_agent ?e1 = Some ?ua" by (simp add: example_event_def)
  have a: "opt_len_ok 1000 (user_agent ?e1)" unfolding b by (simp add: opt_len_ok_def)
  have c: "''bot'' \<in> set bot_indicators" by (simp add: bot_indicators_def)
  have d: "contains ''bot'' (lower ?ua)" by code_simp
  have e: "user_agent ?e2 = Some ''Mozilla/5.0 normal browser''" by (simp add: example_event_def)
  from bot_flag[of ?e1 ?ua "''bot''" example_lib] a b c d
  have 1: "row_is_valid (flag_bot (clean_event example_lib ?e1)) = 0 \<and>
        row_validation_errors (flag_bot (clean_event example_lib ?e1)) = ''bot_traffic''"
    by blast
  from bot_flag[of ?e2 _ _ example_lib] e
  have 2: "row_is_valid (flag_bot (clean_event example_lib ?e2)) = 1 \<and>
        row_validation_errors (flag_bot (clean_event example_lib ?e2)) = []"
    by blast
  from 1 2 show ?thesis by blast
qed

text \<open>
  C9 as stated fails in its last part: a submitted user agent with no denylisted
  substring can still be flagged, because removing a control character can complete
  one. \<open>"b\x00ot"\<close> contains none of the indicators and is stored as \<open>"bot"\<close>, flagged.
\<close>

theorem control_character_completes_indicator:
  "\<not> list_ex (\<lambda>ind. contains ind (lower [CHR ''b'', CHR 0x00, CHR ''o'', CHR ''t''])) bot_indicators
   \<and> row_is_valid (flag_bot (clean_event example_lib
        (example_event ''e1'' (Aware example_now) [CHR ''b'', CHR 0x00, CHR ''o'', CHR ''t'']))) = 0
   \<and> row_validation_errors (flag_bot (clean_event example_lib
        (example_event ''e1'' (Aware example_now) [CHR ''b'', CHR 0x00, CHR ''o'', CHR ''t''])))
      = ''bot_traffic''"
  by code_simp

section \<open>The validation fields of a stored row\<close>

text \<open>
  C10. A row that \<open>insert_events\<close> stores has \<open>validation_errors\<close> equal to the empty
  string or to \<open>"bot_traffic"\<close>, and \<open>is_valid\<close> equal to 0 exactly when the detector
  fires on the cleaned user agent (and to 1 otherwise). Staleness changes none of this:
  an event more than 7 days old passes the validator with a warning, and the batch that
  holds it is stored, the row carrying the flags its user agent gives it (an event whose
  cleaning raises leaves no row).
\<close>

theorem validity_invariant:
  "(row_validation_errors (flag_bot (clean_event lib e)) = [] \<or>
    row_validation_errors (flag_bot (clean_event lib e)) = ''bot_traffic'')
   \<and> (row_is_valid (flag_bot (clean_event lib e)) = 0 \<or>
       row_is_valid (flag_bot (clean_event lib e)) = 1)
   \<and> ((row_is_valid (flag_bot (clean_event lib e)) = 0) =
       detect_bot_traffic (clean_string (str_or (user_agent e) []) 1000))
   \<and> ((row_validation_errors (flag_bot (clean_event lib e)) = ''bot_traffic'') =
       detect_bot_traffic (clean_string (str_or (user_agent e) []) 1000))
   \<and> row_user_agent (flag_bot (clean_event lib e)) = clean_string (str_or (user_agent e) []) 1000
   \<and> (7 < (now - t) div day_us \<longrightarrow>
        validate_event_time now (Aware t) = Inr ([Event_time_stale (Aware t)], Aware t))
   \<and> (field_constraints e \<and> event_time e = Aware t \<and> 7 < (now - t) div day_us \<and> reachable db \<longrightarrow>
        collect_events lib now [e] db =
          (Accepted 1,
           if clean_event_raises lib e = None
           then db\<lparr>events_buffer := events_buffer db @
             [[flag_bot (clean_event lib
                 (e\<lparr>page_url := validate_urls (page_url e),
                    referrer_url := validate_urls (referrer_url e)\<rparr>))]]\<rparr>
           else db))"
proof (intro conjI impI)
  assume "7 < (now - t) div day_us"
  then show "validate_event_time now (Aware t) = Inr ([Event_time_stale (Aware t)], Aware t)"
    by (rule stale_event_time)
next
  assume a: "field_constraints e \<and> event_time e = Aware t \<and> 7 < (now - t) div day_us \<and> reachable db"
  then have "validate_event_time now (Aware t) = Inr ([Event_time_stale (Aware t)], Aware t)"
    by (simp add: stale_event_time)
  then have "t \<le> end_of_today now"
    by (auto simp: validate_event_time_def split: if_splits)
  with a show "collect_events lib now [e] db =
          (Accepted 1,
           if clean_event_raises lib e = None
           then db\<lparr>events_buffer := events_buffer db @
             [[flag_bot (clean_event lib
                 (e\<lparr>page_url := validate_urls (page_url e),
                    referrer_url := validate_urls (referrer_url e)\<rparr>))]]\<rparr>
           else db)"
    using collect_events_single[of e t now db lib] by blast
qed (simp_all add: flag_bot_fields row_user_agent_clean_event row_flags_clean_event)

theorem validity_invariant_witness:
  "validate_event_time example_now (Aware (example_now - 10 * day_us))
     = Inr ([Event_time_stale (Aware (example_now - 10 * day_us))], Aware (example_now - 10 * day_us))
   \<and> (\<exists>r. collect_events example_lib example_now
        [example_event ''e1'' (Aware (example_now - 10 * day_us)) ''Mozilla/5.0 normal browser'']
        example_db = (Accepted 1, example_db\<lparr>events_buffer := [[r]]\<rparr>)
        \<and> row_is_valid r = 1 \<and> row_validation_errors r = [])"
proof -
  let ?t = "example_now - 10 * day_us"
  let ?e = "example_event ''e1'' (Aware ?t) ''Mozilla/5.0 normal browser''"
  let ?e' = "?e\<lparr>page_url := validate_urls (page_url ?e),
                referrer_url := validate_urls (referrer_url ?e)\<rparr>"
  have a: "field_constraints ?e" by code_simp
  have b: "event_time ?e = Aware ?t" by (simp add: example_event_def)
  have c: "7 < (example_now - ?t) div day_us" by (simp add: day_us_def)
  have d: "reachable example_db" by (simp add: example_db_def)
  have n: "\<not> detect_bot_traffic (clean_string (str_or (user_agent ?e') []) 1000)" by code_simp
  have eb: "events_buffer example_db = []" by (simp add: example_db_def)
  have nr: "clean_event_raises example_lib ?e = None"
    by (simp add: clean_event_raises_def example_event_def str_or_def)
  from validity_invariant[of example_lib ?e example_now ?t example_db] a b c d
  have 1: "validate_event_time example_now (Aware ?t) = Inr ([Event_time_stale (Aware ?t)], Aware ?t)"
    and cc: "collect_events example_lib example_now [?e] example_db =
            (Accepted 1,
             if clean_event_raises example_lib ?e = None
             then example_db\<lparr>events_buffer := events_buffer example_db @
               [[flag_bot (clean_event example_lib ?e')]]\<rparr>
             else example_db)"
    by blast+
  have 2: "collect_events example_lib example_now [?e] example_db =
            (Accepted 1, example_db\<lparr>events_buffer := events_buffer example_db @
               [[flag_bot (clean_event example_lib ?e')]]\<rparr>)"
    using cc by (simp only: nr simp_thms if_True)
  from validity_invariant[of example_lib ?e' example_now ?t example_db] n
  have 3: "row_is_valid (flag_bot (clean_event example_lib ?e')) = 1"
    and 4: "row_validation_errors (flag_bot (clean_event example_lib ?e')) = []"
    by auto
  show ?thesis using 1 2 3 4 eb by auto
qed

section \<open>User identification\<close>

lemma backfill_user_id:
  "row_user_id (backfill uid aid r) =
     (if row_anonymous_id r = aid \<and> row_user_id r = [] then uid else row_user_id r)"
  by (simp add: backfill_def)

lemma backfill_frame: "backfill uid aid r = r\<lparr>row_user_id := row_user_id (backfill uid aid r)\<rparr>"
  by (simp add: backfill_def)

lemma backfill_attributed: "row_user_id r \<noteq> [] \<Longrightarrow> backfill uid aid r = r"
  by (simp add: backfill_def)

lemma backfill_other_visitor: "row_anonymous_id r \<noteq> aid \<Longrightarrow> backfill uid aid r = r"
  by (simp add: backfill_def)

lemma backfill_idem: "backfill uid aid (backfill uid aid r) = backfill uid aid r"
  by (simp add: backfill_def)

subsection \<open>Reading the statements\<close>

lemma strip_prefix_append: "strip_prefix p (p @ s) = Some s"
  by (induction p) simp_all

lemma strip_prefix_differs: "x \<noteq> y \<Longrightarrow> strip_prefix (p @ x # xs) (p @ y # ys) = None"
  by (induction p) simp_all

lemma scan_literal:
  "sql_literal_safe s \<Longrightarrow> d \<noteq> quote \<Longrightarrow>
   scan In_literal acc (s @ quote # d # ds) = scan (After_literal (d # ds)) (acc @ s) (d # ds)"
  by (induction s arbitrary: acc)
    (simp_all add: sql_literal_safe_def quote_def backslash_def del: scan.simps(3,4))

lemma scan_after_literal:
  "list_all sql_space ws \<Longrightarrow> \<not> sql_space c \<Longrightarrow> c \<noteq> CHR ''|'' \<Longrightarrow>
   scan (After_literal r) acc (ws @ c # cs) = Some (acc, r)"
  by (induction ws) simp_all

lemma read_string_expr_literal:
  assumes "sql_literal_safe s" "list_all sql_space ws" "\<not> sql_space c" "c \<noteq> CHR ''|''"
    "c \<noteq> quote"
  shows "read_string_expr (quote # s @ quote # ws @ c # cs) = Some (s, ws @ c # cs)"
proof (cases ws)
  case Nil
  then show ?thesis
    using assms scan_literal[of s c "[]" cs] scan_after_literal[of "[]" c "c # cs" s cs]
    by (simp add: read_string_expr_def)
next
  case (Cons w ws')
  then have "w \<noteq> quote" using assms(2) by (auto simp: sql_space_def quote_def)
  then show ?thesis
    using assms Cons scan_literal[of s w "[]" "ws' @ c # cs"]
      scan_after_literal[of ws c "ws @ c # cs" s cs]
    by (simp add: read_string_expr_def)
qed

lemma read_template_literals:
  assumes "sql_literal_safe u" "sql_literal_safe a"
    and "between = wsa @ ca # ra" "list_all sql_space wsa" "\<not> sql_space ca" "ca \<noteq> CHR ''|''"
      "ca \<noteq> quote"
    and "outro = wsb @ cb # rb" "list_all sql_space wsb" "\<not> sql_space cb" "cb \<noteq> CHR ''|''"
      "cb \<noteq> quote"
  shows "read_template intro between outro
           (intro @ [quote] @ u @ [quote] @ between @ [quote] @ a @ [quote] @ outro) = Some (u, a)"
proof -
  have 1: "read_string_expr ([quote] @ u @ [quote] @ between @ [quote] @ a @ [quote] @ outro)
         = Some (u, between @ [quote] @ a @ [quote] @ outro)"
    using read_string_expr_literal[OF assms(1) assms(4-7), of "ra @ [quote] @ a @ [quote] @ outro"]
    by (simp add: assms(3))
  have 2: "read_string_expr ([quote] @ a @ [quote] @ outro) = Some (a, outro)"
    using read_string_expr_literal[OF assms(2) assms(9-12), of rb]
    by (simp add: assms(8))
  show ?thesis
    unfolding read_template_def
    by (simp only: strip_prefix_append 1 2 option.case prod.case simp_thms if_True)
qed

lemma sql_space_blank: "list_all sql_space (sp n)" "list_all sql_space nl"
  by (simp_all add: sp_def nl_def sql_space_def list_all_iff)

text \<open>
  An identifier without a single quote and without a backslash is read back as itself
  from both statements.
\<close>

lemma read_profile_insert_literals:
  "sql_literal_safe u \<Longrightarrow> sql_literal_safe a \<Longrightarrow>
   read_profile_insert (profile_insert_statement u a) = Some (u, a)"
  unfolding read_profile_insert_def profile_insert_statement_def
  by (rule read_template_literals[where wsa = "[]" and ca = "CHR '',''" and ra = "nl @ sp 20 @ ''[''"
        and wsb = "[]" and cb = "CHR '']''"
        and rb = "'','' @ nl @ sp 20 @ ''now64(),'' @ nl @ sp 20 @ ''now64(),'' @
                  nl @ sp 20 @ ''now64(),'' @ nl @ sp 20 @ ''now64()'' @
                  nl @ sp 16 @ '')'' @ nl @ sp 12"])
    (simp_all add: insert_between_def insert_outro_def sql_space_def quote_def)

lemma read_events_update_literals:
  "sql_literal_safe u \<Longrightarrow> sql_literal_safe a \<Longrightarrow>
   read_events_update (events_update_statement u a) = Some (u, a)"
  unfolding read_events_update_def events_update_statement_def
  by (rule read_template_literals[where wsa = "nl @ sp 16" and ca = "CHR ''W''"
        and ra = "''HERE anonymous_id = ''"
        and wsb = "'' ''" and cb = "CHR ''A''"
        and rb = "''ND user_id = '' @ [quote, quote] @ nl @ sp 12"])
    (simp_all add: update_between_def update_outro_def sql_space_blank sql_space_def quote_def)

lemma update_is_no_insert: "read_profile_insert (events_update_statement u a) = None"
proof -
  have "strip_prefix insert_intro (events_update_statement u a) = None"
    unfolding insert_intro_def events_update_statement_def update_intro_def
    using strip_prefix_differs[of "CHR ''I''" "CHR ''A''" "nl @ sp 16"]
    by simp
  then show ?thesis by (simp add: read_profile_insert_def read_template_def)
qed

subsection \<open>The two commands\<close>

text \<open>
  A call whose statements are read as the insert and the update of the template, with
  whatever values, completes on a reachable store, whatever the server does elsewhere.
\<close>

lemma identify_user_read:
  assumes "reachable db"
    and "read_profile_insert
           (profile_insert_statement (ui_user_id identification) (ui_anonymous_id identification))
         = Some (u, a)"
    and "read_events_update
           (events_update_statement (ui_user_id identification) (ui_anonymous_id identification))
         = Some (v, b)"
  shows "identify_user elsewhere now64 identification db =
     Identified
       (db\<lparr>user_profiles := user_profiles db @
              [\<lparr>profile_user_id = u, profile_anonymous_ids = [a],
                first_seen = now64, last_seen = now64,
                created_at = now64, updated_at = now64\<rparr>],
           events := map (backfill v b) (events db)\<rparr>)"
  using assms by (simp add: identify_user_def client_command_def update_is_no_insert)

lemma identify_user_literals:
  assumes "sql_literal_safe (ui_user_id identification)"
    "sql_literal_safe (ui_anonymous_id identification)" "reachable db"
  shows "identify_user elsewhere now64 identification db =
     Identified
       (db\<lparr>user_profiles := user_profiles db @
              [\<lparr>profile_user_id = ui_user_id identification,
                profile_anonymous_ids = [ui_anonymous_id identification],
                first_seen = now64, last_seen = now64,
                created_at = now64, updated_at = now64\<rparr>],
           events := map (backfill (ui_user_id identification) (ui_anonymous_id identification))
                       (events db)\<rparr>)"
  using assms
  by (simp add: identify_user_read read_profile_insert_literals read_events_update_literals)

lemma identify_user_unreachable:
  "\<not> reachable db \<Longrightarrow>
   identify_user elsewhere now64 identification db = Identify_raised Storage_error db"
  by (simp add: identify_user_def client_command_def)

text \<open>
  For identifiers without a single quote and without a backslash the backfill has the
  scope of the specification: the \<open>events\<close> table has the same rows in the same
  places, where exactly the rows with the given \<open>anonymous_id\<close> and an empty \<open>user_id\<close>
  have the new \<open>user_id\<close>; a row differs from the row it was in \<open>user_id\<close> at most, a
  row that already had a \<open>user_id\<close> is unchanged, and so is a row of another
  \<open>anonymous_id\<close>.
\<close>

lemma backfill_scope_literals:
  assumes "sql_literal_safe (ui_user_id identification)"
    "sql_literal_safe (ui_anonymous_id identification)" "reachable db"
  shows "\<exists>db'. identify_user elsewhere now64 identification db = Identified db' \<and>
        length (events db') = length (events db) \<and>
        (\<forall>i < length (events db).
           row_user_id (events db' ! i) =
             (if row_anonymous_id (events db ! i) = ui_anonymous_id identification \<and>
                 row_user_id (events db ! i) = []
              then ui_user_id identification else row_user_id (events db ! i)) \<and>
           events db' ! i = (events db ! i)\<lparr>row_user_id := row_user_id (events db' ! i)\<rparr> \<and>
           (row_user_id (events db ! i) \<noteq> [] \<longrightarrow> events db' ! i = events db ! i) \<and>
           (row_anonymous_id (events db ! i) \<noteq> ui_anonymous_id identification \<longrightarrow>
              events db' ! i = events db ! i))"
proof -
  let ?u = "ui_user_id identification" and ?a = "ui_anonymous_id identification"
  let ?db = "db\<lparr>user_profiles := user_profiles db @
              [\<lparr>profile_user_id = ?u, profile_anonymous_ids = [?a],
                first_seen = now64, last_seen = now64,
                created_at = now64, updated_at = now64\<rparr>],
           events := map (backfill ?u ?a) (events db)\<rparr>"
  have d: "identify_user elsewhere now64 identification db = Identified ?db"
    using assms by (rule identify_user_literals)
  have ev: "events ?db = map (backfill ?u ?a) (events db)" by simp
  have "\<forall>i < length (events db).
           row_user_id (events ?db ! i) =
             (if row_anonymous_id (events db ! i) = ?a \<and> row_user_id (events db ! i) = []
              then ?u else row_user_id (events db ! i)) \<and>
           events ?db ! i = (events db ! i)\<lparr>row_user_id := row_user_id (events ?db ! i)\<rparr> \<and>
           (row_user_id (events db ! i) \<noteq> [] \<longrightarrow> events ?db ! i = events db ! i) \<and>
           (row_anonymous_id (events db ! i) \<noteq> ?a \<longrightarrow> events ?db ! i = events db ! i)"
  proof (intro allI impI)
    fix i assume i: "i < length (events db)"
    then have n: "events ?db ! i = backfill ?u ?a (events db ! i)" by (simp only: ev nth_map)
    show "row_user_id (events ?db ! i) =
             (if row_anonymous_id (events db ! i) = ?a \<and> row_user_id (events db ! i) = []
              then ?u else row_user_id (events db ! i)) \<and>
           events ?db ! i = (events db ! i)\<lparr>row_user_id := row_user_id (events ?db ! i)\<rparr> \<and>
           (row_user_id (events db ! i) \<noteq> [] \<longrightarrow> events ?db ! i = events db ! i) \<and>
           (row_anonymous_id (events db ! i) \<noteq> ?a \<longrightarrow> events ?db ! i = events db ! i)"
      unfolding n
      using backfill_user_id[of ?u ?a "events db ! i"] backfill_frame[of ?u ?a "events db ! i"]
        backfill_attributed[of "events db ! i" ?u ?a]
        backfill_other_visitor[of "events db ! i" ?a ?u]
      by simp
  qed
  moreover have "length (events ?db) = length (events db)" by simp
  ultimately show ?thesis using d by blast
qed

text \<open>
  C5. The scope of the backfill is the scope of the \<open>WHERE\<close> clause of the text that
  reaches the server, and an identifier with a single quote changes that text. The
  request \<open>user_id = "u2"\<close>, \<open>anonymous_id = "a1'||'"\<close> passes the constraints of the
  fields. Its statements are read as \<open>['a1'||'']\<close> and
  \<open>WHERE anonymous_id = 'a1'||'' AND user_id = ''\<close>, the string \<open>a1\<close>: the call completes,
  records \<open>(u2, [a1])\<close>, stamps the unattributed row of the visitor \<open>a1\<close>, whose
  \<open>anonymous_id\<close> is not the given one, and leaves the unattributed row of the visitor
  \<open>a1'||'\<close>, the given one, as it was. The row of \<open>a1\<close> that belongs to \<open>u9\<close> is kept.
\<close>

theorem backfill_scope_quoted_identifier:
  "UserIdentification_field_constraints
     \<lparr>ui_user_id = ''u2'', ui_anonymous_id = ''a1'' @ [quote] @ ''||'' @ [quote],
      ui_traits = None :: unit option\<rparr>
   \<and> events_update_statement ''u2'' (''a1'' @ [quote] @ ''||'' @ [quote]) =
       nl @ sp 16 @ ''ALTER TABLE analytics.events '' @
       nl @ sp 16 @ ''UPDATE user_id = '' @ [quote] @ ''u2'' @ [quote] @
       nl @ sp 16 @ ''WHERE anonymous_id = '' @ [quote] @ ''a1'' @ [quote] @ ''||'' @ [quote, quote] @
         '' AND user_id = '' @ [quote, quote] @
       nl @ sp 12
   \<and> identify_user refusing_server 7
       \<lparr>ui_user_id = ''u2'', ui_anonymous_id = ''a1'' @ [quote] @ ''||'' @ [quote],
        ui_traits = None :: unit option\<rparr>
       (example_db\<lparr>events :=
          [(example_purchase [] 50)\<lparr>row_anonymous_id := ''a1''\<rparr>,
           (example_purchase ''u9'' 50)\<lparr>row_anonymous_id := ''a1''\<rparr>,
           (example_purchase [] 50)\<lparr>row_anonymous_id := ''a1'' @ [quote] @ ''||'' @ [quote]\<rparr>]\<rparr>)
     = Identified
        (example_db\<lparr>user_profiles :=
           [\<lparr>profile_user_id = ''u2'', profile_anonymous_ids = [''a1''],
             first_seen = 7, last_seen = 7, created_at = 7, updated_at = 7\<rparr>],
         events :=
          [(example_purchase ''u2'' 50)\<lparr>row_anonymous_id := ''a1''\<rparr>,
           (example_purchase ''u9'' 50)\<lparr>row_anonymous_id := ''a1''\<rparr>,
           (example_purchase [] 50)\<lparr>row_anonymous_id := ''a1'' @ [quote] @ ''||'' @ [quote]\<rparr>]\<rparr>)"
  by code_simp

text \<open>
  C4, as the code has it. The profile write is a plain \<open>INSERT\<close>. For identifiers
  without a single quote and without a backslash, on a reachable store, every call
  completes and appends one row: two calls with the same pair leave one more row than one
  call, recording the same pair again; the set of recorded associations is the same as
  after one call, and the second call changes no event row.
\<close>

theorem identify_twice:
  "sql_literal_safe (ui_user_id identification) \<and>
   sql_literal_safe (ui_anonymous_id identification) \<and> reachable db \<longrightarrow>
     (\<exists>db1 db2.
        identify_user elsewhere t1 identification db = Identified db1
        \<and> identify_user elsewhere t2 identification db1 = Identified db2
        \<and> user_profiles db1 = user_profiles db @
            [\<lparr>profile_user_id = ui_user_id identification,
              profile_anonymous_ids = [ui_anonymous_id identification],
              first_seen = t1, last_seen = t1, created_at = t1, updated_at = t1\<rparr>]
        \<and> user_profiles db2 = user_profiles db1 @
            [\<lparr>profile_user_id = ui_user_id identification,
              profile_anonymous_ids = [ui_anonymous_id identification],
              first_seen = t2, last_seen = t2, created_at = t2, updated_at = t2\<rparr>]
        \<and> length (user_profiles db2) = length (user_profiles db) + 2
        \<and> associations db1 =
            associations db @ [(ui_user_id identification, ui_anonymous_id identification)]
        \<and> associations db2 =
            associations db1 @ [(ui_user_id identification, ui_anonymous_id identification)]
        \<and> set (associations db2) = set (associations db1)
        \<and> events db2 = events db1)"
proof (intro impI)
  let ?u = "ui_user_id identification" and ?a = "ui_anonymous_id identification"
  let ?p = "\<lambda>t. \<lparr>profile_user_id = ?u, profile_anonymous_ids = [?a],
                  first_seen = t, last_seen = t, created_at = t, updated_at = t\<rparr>"
  let ?db1 = "db\<lparr>user_profiles := user_profiles db @ [?p t1],
                  events := map (backfill ?u ?a) (events db)\<rparr>"
  let ?db2 = "?db1\<lparr>user_profiles := user_profiles ?db1 @ [?p t2],
                    events := map (backfill ?u ?a) (events ?db1)\<rparr>"
  assume h: "sql_literal_safe ?u \<and> sql_literal_safe ?a \<and> reachable db"
  then have s: "sql_literal_safe ?u" "sql_literal_safe ?a" and r: "reachable db" by simp_all
  have r1: "reachable ?db1" using r by simp
  have d1: "identify_user elsewhere t1 identification db = Identified ?db1"
    using s r by (rule identify_user_literals)
  have d2: "identify_user elsewhere t2 identification ?db1 = Identified ?db2"
    using s r1 by (rule identify_user_literals)
  have p1: "user_profiles ?db1 = user_profiles db @ [?p t1]" by simp
  have p2: "user_profiles ?db2 = user_profiles ?db1 @ [?p t2]" by simp
  have l: "length (user_profiles ?db2) = length (user_profiles db) + 2" by simp
  have a1: "associations ?db1 = associations db @ [(?u, ?a)]"
    by (simp add: associations_def)
  have a2: "associations ?db2 = associations ?db1 @ [(?u, ?a)]"
    by (simp add: associations_def)
  have st: "set (associations ?db2) = set (associations ?db1)"
    unfolding a2 a1 by auto
  have "map (backfill ?u ?a) (map (backfill ?u ?a) (events db)) = map (backfill ?u ?a) (events db)"
    by (simp add: backfill_idem)
  then have ev: "events ?db2 = events ?db1" by simp
  show "\<exists>db1 db2.
        identify_user elsewhere t1 identification db = Identified db1
        \<and> identify_user elsewhere t2 identification db1 = Identified db2
        \<and> user_profiles db1 = user_profiles db @ [?p t1]
        \<and> user_profiles db2 = user_profiles db1 @ [?p t2]
        \<and> length (user_profiles db2) = length (user_profiles db) + 2
        \<and> associations db1 = associations db @ [(?u, ?a)]
        \<and> associations db2 = associations db1 @ [(?u, ?a)]
        \<and> set (associations db2) = set (associations db1)
        \<and> events db2 = events db1"
    using d1 d2 p1 p2 l a1 a2 st ev by blast
qed

theorem identify_twice_witness:
  "\<exists>db1 db2.
     identify_user refusing_server 1
       \<lparr>ui_user_id = ''u1'', ui_anonymous_id = ''a1'', ui_traits = None :: unit option\<rparr>
       example_db = Identified db1
     \<and> identify_user refusing_server 2
       \<lparr>ui_user_id = ''u1'', ui_anonymous_id = ''a1'', ui_traits = None :: unit option\<rparr>
       db1 = Identified db2
     \<and> length (user_profiles db2) = 2
     \<and> associations db2 = [(''u1'', ''a1''), (''u1'', ''a1'')]
     \<and> set (associations db2) = set (associations db1)
     \<and> events db2 = events db1"
proof -
  let ?id = "\<lparr>ui_user_id = ''u1'', ui_anonymous_id = ''a1'', ui_traits = None :: unit option\<rparr>"
  have s: "sql_literal_safe (ui_user_id ?id) \<and> sql_literal_safe (ui_anonymous_id ?id) \<and>
           reachable example_db"
    by (simp add: sql_literal_safe_def quote_def backslash_def example_db_def)
  have l: "length (user_profiles example_db) = 0" "associations example_db = []"
    by (simp_all add: example_db_def associations_def)
  from identify_twice[where identification = ?id and db = example_db
      and elsewhere = refusing_server and ?t1.0 = 1 and ?t2.0 = 2] s
  obtain db1 db2 where
    "identify_user refusing_server 1 ?id example_db = Identified db1"
    "identify_user refusing_server 2 ?id db1 = Identified db2"
    "length (user_profiles db2) = length (user_profiles example_db) + 2"
    "associations db1 = associations example_db @ [(ui_user_id ?id, ui_anonymous_id ?id)]"
    "associations db2 = associations db1 @ [(ui_user_id ?id, ui_anonymous_id ?id)]"
    "set (associations db2) = set (associations db1)"
    "events db2 = events db1"
    by blast
  then show ?thesis using l by (intro exI[of _ db1] exI[of _ db2]) simp
qed

text \<open>
  C4 as stated fails: after the second call the association is stored twice.
\<close>

theorem identify_twice_duplicates:
  "(case identify_user refusing_server 1
          \<lparr>ui_user_id = ''u1'', ui_anonymous_id = ''a1'', ui_traits = None :: unit option\<rparr>
          example_db of
      Identified db1 \<Rightarrow>
        (case identify_user refusing_server 2
                \<lparr>ui_user_id = ''u1'', ui_anonymous_id = ''a1'', ui_traits = None :: unit option\<rparr>
                db1 of
           Identified db2 \<Rightarrow>
             associations db1 = [(''u1'', ''a1'')] \<and>
             associations db2 = [(''u1'', ''a1''), (''u1'', ''a1'')] \<and>
             length (user_profiles db1) = 1 \<and> length (user_profiles db2) = 2
         | _ \<Rightarrow> False)
    | _ \<Rightarrow> False)"
  by code_simp

section \<open>The attribution query\<close>

lemma set_insert_sorted: "set (insert_sorted r xs) = insert r (set xs)"
  by (induction xs) auto

lemma set_order_by: "set (order_by rows) = set rows"
  unfolding order_by_def by (induction rows) (simp_all add: set_insert_sorted)

lemma set_attribution_query:
  "set (attribution_query cfg today perf evs) =
     select_row ` {j \<in> set (full_outer_join (join_use_nulls cfg)
                        (google_ads_clicks_cte today perf) (website_conversions_cte cfg today evs)).
                   where_clause j}"
  by (simp add: attribution_query_def set_order_by)

lemma left_only_joined:
  "g \<in> set gac \<Longrightarrow> \<not> list_ex (on_clause g) wc \<Longrightarrow>
   join_row nulls (Some g) None \<in> set (full_outer_join nulls gac wc)"
proof -
  assume g: "g \<in> set gac" and n: "\<not> list_ex (on_clause g) wc"
  have "filter (on_clause g) wc = []" using n by (simp add: list_ex_iff filter_empty_conv)
  then show ?thesis using g by (force simp: full_outer_join_def Let_def)
qed

lemma right_only_joined:
  "w \<in> set wc \<Longrightarrow> \<not> list_ex (\<lambda>g. on_clause g w) gac \<Longrightarrow>
   join_row nulls None (Some w) \<in> set (full_outer_join nulls gac wc)"
  by (simp add: full_outer_join_def)

lemma joined_cases:
  assumes "j \<in> set (full_outer_join nulls gac wc)"
  shows "(\<exists>g. j = join_row nulls (Some g) None) \<or> (\<exists>w. j = join_row nulls None (Some w)) \<or>
         (\<exists>g w. j = join_row nulls (Some g) (Some w))"
  using assms by (auto simp: full_outer_join_def Let_def split: if_splits)

lemma where_left_only: "where_clause (join_row nulls (Some g) None) = (0 < gac_ad_spend g)"
  by (simp add: where_clause_def join_row_def column_def sql_or_def sql_gt0_def)

lemma where_right_only: "where_clause (join_row nulls None (Some w)) = (0 < wc_website_revenue w)"
  by (simp add: where_clause_def join_row_def column_def sql_or_def sql_gt0_def)

lemmas sql_defs = select_row_def join_row_def column_def coalesce_def coalesce0_def sql_if_def
  sql_gt0_def sql_div_def sql_times_def

lemma select_left_only:
  "date (select_row (join_row nulls (Some g) None)) = Some (gac_date g)"
  "campaign_name (select_row (join_row nulls (Some g) None)) = Some (gac_campaign_name g)"
  "ad_clicks (select_row (join_row nulls (Some g) None)) = gac_ad_clicks g"
  "ad_spend (select_row (join_row nulls (Some g) None)) = gac_ad_spend g"
  "website_users (select_row (join_row nulls (Some g) None)) = 0"
  "website_revenue (select_row (join_row nulls (Some g) None)) = 0"
  "website_conversions (select_row (join_row nulls (Some g) None)) = 0"
  by (simp_all add: sql_defs)

lemma select_right_only:
  "ad_clicks (select_row (join_row nulls None (Some w))) = 0"
  "ad_spend (select_row (join_row nulls None (Some w))) = 0"
  "website_users (select_row (join_row nulls None (Some w))) = wc_unique_users w"
  "website_revenue (select_row (join_row nulls None (Some w))) = wc_website_revenue w"
  "website_conversions (select_row (join_row nulls None (Some w))) = wc_conversions w"
  "date (select_row (join_row nulls None (Some w))) = Some (if nulls then wc_date w else 0)"
  "campaign_name (select_row (join_row nulls None (Some w))) =
     Some (if nulls then wc_campaign_name w else [])"
  by (simp_all add: sql_defs)

lemma select_ratios_default_fill:
  "roas (select_row (join_row False a b)) =
     Num (if 0 < ad_spend (select_row (join_row False a b))
          then website_revenue (select_row (join_row False a b)) /
               ad_spend (select_row (join_row False a b)) else 0)"
  "cost_per_conversion (select_row (join_row False a b)) =
     Num (if 0 < website_conversions (select_row (join_row False a b))
          then ad_spend (select_row (join_row False a b)) /
               of_int (website_conversions (select_row (join_row False a b))) else 0)"
  "click_to_visit_rate (select_row (join_row False a b)) =
     Num (if 0 < ad_clicks (select_row (join_row False a b))
          then of_int (website_users (select_row (join_row False a b))) /
               of_int (ad_clicks (select_row (join_row False a b))) * 100 else 0)"
  by (cases a; cases b; simp add: sql_defs)+

lemma select_ratios_matched:
  "roas (select_row (join_row nulls (Some g) (Some w))) =
     Num (if 0 < gac_ad_spend g then wc_website_revenue w / gac_ad_spend g else 0)"
  "cost_per_conversion (select_row (join_row nulls (Some g) (Some w))) =
     Num (if 0 < wc_conversions w then gac_ad_spend g / of_int (wc_conversions w) else 0)"
  "click_to_visit_rate (select_row (join_row nulls (Some g) (Some w))) =
     Num (if 0 < gac_ad_clicks g
          then of_int (wc_unique_users w) / of_int (gac_ad_clicks g) * 100 else 0)"
  by (simp_all add: sql_defs)

lemma select_never_division_by_zero:
  "roas (select_row (join_row nulls a b)) \<noteq> Division_by_zero"
  "cost_per_conversion (select_row (join_row nulls a b)) \<noteq> Division_by_zero"
  "click_to_visit_rate (select_row (join_row nulls a b)) \<noteq> Division_by_zero"
  by (cases a; cases b; cases nulls; simp add: sql_defs)+

lemma select_ratios_null_fill_left_only:
  "roas (select_row (join_row True (Some g) None)) = (if 0 < gac_ad_spend g then Null else Num 0)"
  "cost_per_conversion (select_row (join_row True (Some g) None)) = Num 0"
  "click_to_visit_rate (select_row (join_row True (Some g) None)) =
     (if 0 < gac_ad_clicks g then Null else Num 0)"
  by (simp_all add: sql_defs)

lemma select_ratios_null_fill_right_only:
  "roas (select_row (join_row True None (Some w))) = Num 0"
  "cost_per_conversion (select_row (join_row True None (Some w))) =
     (if 0 < wc_conversions w then Null else Num 0)"
  "click_to_visit_rate (select_row (join_row True None (Some w))) = Num 0"
  by (simp_all add: sql_defs)

lemma select_zero_guard:
  "ad_spend (select_row (join_row nulls a b)) \<le> 0 \<Longrightarrow>
   roas (select_row (join_row nulls a b)) = Num 0"
  "website_conversions (select_row (join_row nulls a b)) \<le> 0 \<Longrightarrow>
   cost_per_conversion (select_row (join_row nulls a b)) = Num 0"
  "ad_clicks (select_row (join_row nulls a b)) \<le> 0 \<Longrightarrow>
   click_to_visit_rate (select_row (join_row nulls a b)) = Num 0"
  by (cases a; cases b; cases nulls; simp add: sql_defs)+

lemma query_row_cases:
  assumes "r \<in> set (attribution_query cfg today perf evs)"
  shows "\<exists>a b. r = select_row (join_row (join_use_nulls cfg) a b)"
proof -
  from assms obtain j where j: "j \<in> set (full_outer_join (join_use_nulls cfg)
      (google_ads_clicks_cte today perf) (website_conversions_cte cfg today evs))"
    and r: "r = select_row j"
    by (auto simp: set_attribution_query)
  from joined_cases[OF j] r show ?thesis by blast
qed

text \<open>
  C2, as the code has it. The \<open>WHERE\<close> clause keeps a joined row only if its ad spend or
  its website revenue is positive. A key that is on the ad side only, with
  \<open>ad_spend > 0\<close>, is in the result with its clicks and spend and with \<open>website_users\<close>,
  \<open>website_revenue\<close> and \<open>website_conversions\<close> equal to 0. A key that is on the site
  side only, with \<open>website_revenue > 0\<close>, gives a result row with \<open>ad_clicks = 0\<close>,
  \<open>ad_spend = 0\<close> and its site-side aggregates, under the key's own date and campaign
  name when the join fills the absent side with \<open>NULL\<close>. A one-sided key passes the
  \<open>WHERE\<close> clause exactly when that spend, or that revenue, is positive.
\<close>

theorem one_sided_keys:
  "(g \<in> set (google_ads_clicks_cte today perf) \<and>
    \<not> list_ex (on_clause g) (website_conversions_cte cfg today evs) \<and> 0 < gac_ad_spend g \<longrightarrow>
      (\<exists>r \<in> set (attribution_query cfg today perf evs).
         date r = Some (gac_date g) \<and> campaign_name r = Some (gac_campaign_name g) \<and>
         ad_clicks r = gac_ad_clicks g \<and> ad_spend r = gac_ad_spend g \<and>
         website_users r = 0 \<and> website_revenue r = 0 \<and> website_conversions r = 0))
   \<and> (w \<in> set (website_conversions_cte cfg today evs) \<and>
       \<not> list_ex (\<lambda>g. on_clause g w) (google_ads_clicks_cte today perf) \<and>
       0 < wc_website_revenue w \<longrightarrow>
      (\<exists>r \<in> set (attribution_query cfg today perf evs).
         ad_clicks r = 0 \<and> ad_spend r = 0 \<and>
         website_users r = wc_unique_users w \<and> website_revenue r = wc_website_revenue w \<and>
         website_conversions r = wc_conversions w \<and>
         (join_use_nulls cfg \<longrightarrow>
            date r = Some (wc_date w) \<and> campaign_name r = Some (wc_campaign_name w))))
   \<and> where_clause (join_row nulls (Some g) None) = (0 < gac_ad_spend g)
   \<and> where_clause (join_row nulls None (Some w)) = (0 < wc_website_revenue w)"
proof (intro conjI impI)
  let ?n = "join_use_nulls cfg"
  assume a: "g \<in> set (google_ads_clicks_cte today perf) \<and>
    \<not> list_ex (on_clause g) (website_conversions_cte cfg today evs) \<and> 0 < gac_ad_spend g"
  then have "join_row ?n (Some g) None \<in> set (full_outer_join ?n
      (google_ads_clicks_cte today perf) (website_conversions_cte cfg today evs))"
    by (simp add: left_only_joined)
  moreover have "where_clause (join_row ?n (Some g) None)" using a by (simp add: where_left_only)
  ultimately have "select_row (join_row ?n (Some g) None) \<in> set (attribution_query cfg today perf evs)"
    by (auto simp: set_attribution_query)
  then show "\<exists>r \<in> set (attribution_query cfg today perf evs).
         date r = Some (gac_date g) \<and> campaign_name r = Some (gac_campaign_name g) \<and>
         ad_clicks r = gac_ad_clicks g \<and> ad_spend r = gac_ad_spend g \<and>
         website_users r = 0 \<and> website_revenue r = 0 \<and> website_conversions r = 0"
    using select_left_only[of ?n g] by blast
next
  let ?n = "join_use_nulls cfg"
  assume a: "w \<in> set (website_conversions_cte cfg today evs) \<and>
       \<not> list_ex (\<lambda>g. on_clause g w) (google_ads_clicks_cte today perf) \<and>
       0 < wc_website_revenue w"
  then have "join_row ?n None (Some w) \<in> set (full_outer_join ?n
      (google_ads_clicks_cte today perf) (website_conversions_cte cfg today evs))"
    by (simp add: right_only_joined)
  moreover have "where_clause (join_row ?n None (Some w))" using a by (simp add: where_right_only)
  ultimately have "select_row (join_row ?n None (Some w)) \<in> set (attribution_query cfg today perf evs)"
    by (auto simp: set_attribution_query)
  then show "\<exists>r \<in> set (attribution_query cfg today perf evs).
         ad_clicks r = 0 \<and> ad_spend r = 0 \<and>
         website_users r = wc_unique_users w \<and> website_revenue r = wc_website_revenue w \<and>
         website_conversions r = wc_conversions w \<and>
         (join_use_nulls cfg \<longrightarrow>
            date r = Some (wc_date w) \<and> campaign_name r = Some (wc_campaign_name w))"
    using select_right_only[of ?n w]
    by (cases "join_use_nulls cfg")
       (auto intro!: bexI[of _ "select_row (join_row ?n None (Some w))"])
qed (simp_all add: where_left_only where_right_only)

theorem one_sided_keys_witness:
  "(\<exists>r \<in> set (attribution_query (example_settings False) example_today
        [\<lparr>perf_date = 19675, perf_campaign_name = ''brand'', perf_clicks = 5, perf_cost = 10\<rparr>] []).
      date r = Some 19675 \<and> campaign_name r = Some ''brand'' \<and> ad_clicks r = 5 \<and>
      ad_spend r = 10 \<and> website_users r = 0 \<and> website_revenue r = 0 \<and>
      website_conversions r = 0)
   \<and> (\<exists>r \<in> set (attribution_query (example_settings True) example_today []
        [example_purchase ''u1'' 50]).
      ad_clicks r = 0 \<and> ad_spend r = 0 \<and> website_users r = 1 \<and> website_revenue r = 50 \<and>
      website_conversions r = 1 \<and> date r = Some 19675 \<and> campaign_name r = Some ''brand'')"
proof -
  let ?p = "\<lparr>perf_date = 19675, perf_campaign_name = ''brand'', perf_clicks = 5, perf_cost = 10\<rparr>"
  let ?g = "\<lparr>gac_date = 19675, gac_campaign_name = ''brand'', gac_ad_clicks = 5, gac_ad_spend = 10\<rparr>"
  let ?w = "\<lparr>wc_date = 19675, wc_campaign_name = ''brand'', wc_unique_users = 1,
             wc_website_revenue = 50, wc_conversions = 1\<rparr>"
  have g: "google_ads_clicks_cte example_today [?p] = [?g]" by code_simp
  have w0: "website_conversions_cte (example_settings False) example_today [] = []" by code_simp
  have w: "website_conversions_cte (example_settings True) example_today [example_purchase ''u1'' 50] = [?w]"
    by code_simp
  have g0: "google_ads_clicks_cte example_today [] = []" by code_simp
  have n: "join_use_nulls (example_settings True)" by (simp add: example_settings_def)
  from one_sided_keys[of ?g example_today "[?p]" "example_settings False" "[]"] g w0
  have 1: "\<exists>r \<in> set (attribution_query (example_settings False) example_today [?p] []).
         date r = Some (gac_date ?g) \<and> campaign_name r = Some (gac_campaign_name ?g) \<and>
         ad_clicks r = gac_ad_clicks ?g \<and> ad_spend r = gac_ad_spend ?g \<and>
         website_users r = 0 \<and> website_revenue r = 0 \<and> website_conversions r = 0"
    by simp
  from one_sided_keys[of _ example_today "[]" "example_settings True" "[example_purchase ''u1'' 50]" ?w] w g0 n
  have 2: "\<exists>r \<in> set (attribution_query (example_settings True) example_today [] [example_purchase ''u1'' 50]).
         ad_clicks r = 0 \<and> ad_spend r = 0 \<and>
         website_users r = wc_unique_users ?w \<and> website_revenue r = wc_website_revenue ?w \<and>
         website_conversions r = wc_conversions ?w \<and>
         date r = Some (wc_date ?w) \<and> campaign_name r = Some (wc_campaign_name ?w)"
    by simp
  from 1 2 show ?thesis by simp
qed

text \<open>
  C2 as stated fails, under either join setting: a campaign of the ad side only with
  clicks and a spend of 0, and a campaign of the site side only with a purchase and a
  revenue of 0, are keys of one side that the result omits.
\<close>

theorem zero_spend_key_omitted:
  "google_ads_clicks_cte example_today
     [\<lparr>perf_date = 19675, perf_campaign_name = ''brand'', perf_clicks = 5, perf_cost = 0\<rparr>]
     = [\<lparr>gac_date = 19675, gac_campaign_name = ''brand'', gac_ad_clicks = 5, gac_ad_spend = 0\<rparr>]
   \<and> attribution_query (example_settings True) example_today
       [\<lparr>perf_date = 19675, perf_campaign_name = ''brand'', perf_clicks = 5, perf_cost = 0\<rparr>] [] = []
   \<and> attribution_query (example_settings False) example_today
       [\<lparr>perf_date = 19675, perf_campaign_name = ''brand'', perf_clicks = 5, perf_cost = 0\<rparr>] [] = []
   \<and> website_conversions_cte (example_settings True) example_today [example_purchase ''u1'' 0]
     = [\<lparr>wc_date = 19675, wc_campaign_name = ''brand'', wc_unique_users = 1,
         wc_website_revenue = 0, wc_conversions = 1\<rparr>]
   \<and> attribution_query (example_settings True) example_today [] [example_purchase ''u1'' 0] = []
   \<and> attribution_query (example_settings False) example_today [] [example_purchase ''u1'' 0] = []"
  by code_simp

text \<open>
  When the join fills the absent side with defaults, \<open>coalesce\<close> finds the default date
  and the empty name of the absent ad side first: the row of a site-only key is then
  filed under day 0 and the empty campaign name.
\<close>

lemma site_only_key_default_fill:
  "map (\<lambda>r. (date r, campaign_name r, website_revenue r))
     (attribution_query (example_settings False) example_today [] [example_purchase ''u1'' 50])
   = [(Some 0, Some [], 50)]"
  by code_simp

text \<open>
  With the join filling an absent side with the defaults of the column types (what the
  server does unless it is configured otherwise), every row of the result has three
  ratios that are numbers, computed from the row's own columns with the guards of the
  specification:
  \<open>roas = website_revenue / ad_spend\<close> if \<open>ad_spend > 0\<close>, else 0;
  \<open>cost_per_conversion = ad_spend / website_conversions\<close> if \<open>website_conversions > 0\<close>,
  else 0; \<open>click_to_visit_rate = website_users / ad_clicks * 100\<close> if \<open>ad_clicks > 0\<close>,
  else 0. Under either setting no ratio is a division by zero, and a ratio whose guard
  fails is 0: \<open>ad_spend = 0\<close> with \<open>website_revenue = 50\<close> gives \<open>roas = 0\<close>.
\<close>

lemma guarded_ratios_default_fill:
  "(\<not> join_use_nulls cfg \<and> r \<in> set (attribution_query cfg today perf evs) \<longrightarrow>
      roas r = Num (if 0 < ad_spend r then website_revenue r / ad_spend r else 0) \<and>
      cost_per_conversion r =
        Num (if 0 < website_conversions r then ad_spend r / of_int (website_conversions r) else 0) \<and>
      click_to_visit_rate r =
        Num (if 0 < ad_clicks r then of_int (website_users r) / of_int (ad_clicks r) * 100 else 0))
   \<and> (r \<in> set (attribution_query cfg today perf evs) \<longrightarrow>
        roas r \<noteq> Division_by_zero \<and> cost_per_conversion r \<noteq> Division_by_zero \<and>
        click_to_visit_rate r \<noteq> Division_by_zero \<and>
        (ad_spend r \<le> 0 \<longrightarrow> roas r = Num 0) \<and>
        (website_conversions r \<le> 0 \<longrightarrow> cost_per_conversion r = Num 0) \<and>
        (ad_clicks r \<le> 0 \<longrightarrow> click_to_visit_rate r = Num 0))"
proof (intro conjI impI)
  assume a: "\<not> join_use_nulls cfg \<and> r \<in> set (attribution_query cfg today perf evs)"
  then obtain x y where r: "r = select_row (join_row False x y)"
    using query_row_cases[of r cfg today perf evs] by auto
  show "roas r = Num (if 0 < ad_spend r then website_revenue r / ad_spend r else 0)"
    unfolding r by (rule select_ratios_default_fill)
  show "cost_per_conversion r =
        Num (if 0 < website_conversions r then ad_spend r / of_int (website_conversions r) else 0)"
    unfolding r by (rule select_ratios_default_fill)
  show "click_to_visit_rate r =
        Num (if 0 < ad_clicks r then of_int (website_users r) / of_int (ad_clicks r) * 100 else 0)"
    unfolding r by (rule select_ratios_default_fill)
next
  assume "r \<in> set (attribution_query cfg today perf evs)"
  then obtain x y where r: "r = select_row (join_row (join_use_nulls cfg) x y)"
    using query_row_cases by blast
  show "roas r \<noteq> Division_by_zero" "cost_per_conversion r \<noteq> Division_by_zero"
    "click_to_visit_rate r \<noteq> Division_by_zero"
    unfolding r by (rule select_never_division_by_zero)+
  { assume "ad_spend r \<le> 0" then show "roas r = Num 0"
      unfolding r by (rule select_zero_guard) }
  { assume "website_conversions r \<le> 0" then show "cost_per_conversion r = Num 0"
      unfolding r by (rule select_zero_guard) }
  { assume "ad_clicks r \<le> 0" then show "click_to_visit_rate r = Num 0"
      unfolding r by (rule select_zero_guard) }
qed

lemma guarded_ratios_default_fill_example:
  "\<exists>r \<in> set (attribution_query (example_settings False) example_today []
                 [example_purchase ''u1'' 50]).
     ad_spend r = 0 \<and> website_revenue r = 50 \<and> roas r = Num 0"
proof -
  let ?r = "\<lparr>date = Some 0, campaign_name = Some [], ad_clicks = 0, ad_spend = 0,
         website_users = 1, website_revenue = 50, website_conversions = 1,
         roas = Num 0, cost_per_conversion = Num 0, click_to_visit_rate = Num 0\<rparr>"
  have q: "attribution_query (example_settings False) example_today [] [example_purchase ''u1'' 50] = [?r]"
    by code_simp
  have n: "\<not> join_use_nulls (example_settings False)" by (simp add: example_settings_def)
  have m: "?r \<in> set (attribution_query (example_settings False) example_today [] [example_purchase ''u1'' 50])"
    unfolding q by simp
  from guarded_ratios_default_fill[of "example_settings False" ?r example_today "[]" "[example_purchase ''u1'' 50]"] n m
  have "roas ?r = Num (if 0 < ad_spend ?r then website_revenue ?r / ad_spend ?r else 0)"
    by blast
  then have "ad_spend ?r = 0 \<and> website_revenue ?r = 50 \<and> roas ?r = Num 0" by simp
  with m show ?thesis by blast
qed

text \<open>
  C3. The ratios read the joined columns \<open>gac.ad_spend\<close>, \<open>wc.website_revenue\<close>,
  \<open>wc.conversions\<close>, \<open>gac.ad_clicks\<close> and \<open>wc.unique_users\<close>, not the coalesced
  columns of the row, and neither the query nor the client fixes how the join fills the
  columns of an absent side. When it fills them with \<open>NULL\<close>, the ratios of a one-sided
  row whose guard holds have a \<open>NULL\<close> operand and are \<open>NULL\<close>: a campaign with 5 clicks
  and a spend of 10 and no site-side rows has \<open>ad_spend = 10 > 0\<close> and
  \<open>website_revenue = 0\<close>, and its \<open>roas\<close> is \<open>NULL\<close>, not \<open>0 / 10 = 0\<close>; its
  \<open>click_to_visit_rate\<close> is \<open>NULL\<close> as well. A campaign with one purchase on the site and
  no ad-side rows has \<open>website_conversions = 1 > 0\<close> and \<open>ad_spend = 0\<close>, and its
  \<open>cost_per_conversion\<close> is \<open>NULL\<close>, not \<open>0 / 1 = 0\<close>. (On rows with both sides the
  ratios are the same numbers under both fills, lemma \<open>select_ratios_matched\<close>; the
  general form of the two cases is lemmas \<open>select_ratios_null_fill_left_only\<close> and
  \<open>select_ratios_null_fill_right_only\<close>.)
\<close>

theorem one_sided_row_null_ratios:
  "attribution_query (example_settings True) example_today
     [\<lparr>perf_date = 19675, perf_campaign_name = ''brand'', perf_clicks = 5, perf_cost = 10\<rparr>] []
   = [\<lparr>date = Some 19675, campaign_name = Some ''brand'', ad_clicks = 5, ad_spend = 10,
       website_users = 0, website_revenue = 0, website_conversions = 0,
       roas = Null, cost_per_conversion = Num 0, click_to_visit_rate = Null\<rparr>]
   \<and> attribution_query (example_settings True) example_today [] [example_purchase ''u1'' 50]
   = [\<lparr>date = Some 19675, campaign_name = Some ''brand'', ad_clicks = 0, ad_spend = 0,
       website_users = 1, website_revenue = 50, website_conversions = 1,
       roas = Num 0, cost_per_conversion = Null, click_to_visit_rate = Num 0\<rparr>]"
  by code_simp

end
